theory Spec2Isabelle
  imports Main
begin

section \<open>The launcher of gh-github-mcp-server (main.go)\<close>

text \<open>
  A shallow embedding of \<^verbatim>\<open>main.go\<close>. Every function of the file is a HOL function of
  the same name. What lies outside the file is explicit:
  \<^item> \<open>externals\<close> holds what the process cannot change: the build constants
    \<^verbatim>\<open>runtime.GOOS\<close> and \<^verbatim>\<open>runtime.GOARCH\<close>, the command line, and the answers of the
    operating system, the network and the codecs of the standard library;
  \<^item> \<open>world\<close> holds what the process changes: its environment variables, the filesystem,
    and the record of what it ran, requested and printed.
  A function that has an effect takes the world and returns the new one. A Go result
  \<^verbatim>\<open>(value, error)\<close> is a sum with the error on the left.
\<close>

subsection \<open>The package strings\<close>

type_synonym bytes = string

fun HasPrefix :: "string \<Rightarrow> string \<Rightarrow> bool" where
  "HasPrefix s [] = True"
| "HasPrefix [] (c # p) = False"
| "HasPrefix (x # s) (c # p) = (x = c \<and> HasPrefix s p)"

definition HasSuffix :: "string \<Rightarrow> string \<Rightarrow> bool" where
  "HasSuffix s suffix = HasPrefix (rev s) (rev suffix)"

fun Contains :: "string \<Rightarrow> string \<Rightarrow> bool" where
  "Contains [] substr = (substr = [])"
| "Contains (x # s) substr = (HasPrefix (x # s) substr \<or> Contains s substr)"

text \<open>
  A Go string is a sequence of bytes, here a \<open>string\<close>. \<^verbatim>\<open>strings.ToLower\<close> and
  \<^verbatim>\<open>strings.TrimSpace\<close> are given on ASCII: the letters \<^verbatim>\<open>A\<close> to \<^verbatim>\<open>Z\<close> are lowered
  and every other byte is kept; the space and the bytes 9 to 13 are white space.
\<close>

definition toLowerChar :: "char \<Rightarrow> char" where
  "toLowerChar c =
     (let n = (of_char c :: nat) in if 65 \<le> n \<and> n \<le> 90 then char_of (n + 32) else c)"

definition ToLower :: "string \<Rightarrow> string" where
  "ToLower s = map toLowerChar s"

definition isSpace :: "char \<Rightarrow> bool" where
  "isSpace c = (let n = (of_char c :: nat) in n = 32 \<or> (9 \<le> n \<and> n \<le> 13))"

definition TrimSpace :: "string \<Rightarrow> string" where
  "TrimSpace s = rev (dropWhile isSpace (rev (dropWhile isSpace s)))"

subsection \<open>Errors and messages\<close>

text \<open>
  One constructor for each error the file builds with \<^verbatim>\<open>fmt.Errorf\<close>; \<open>OSError\<close> is
  an error that a package of the standard library returned. A wrapped error (\<^verbatim>\<open>%w\<close>)
  is the argument of its wrapper.
\<close>

datatype error =
    OSError string
  | ExitStatus nat
  | FailedToGetGitHubToken string
  | FailedToExecuteGhAuthToken error
  | ReceivedEmptyToken
  | FailedToDownloadServerBinary error
  | FailedToCreateBinaryDirectory error
  | FailedToDownloadBinary error
  | FailedToDownloadBinaryHTTP nat
  | FailedToCreateTemporaryFile error
  | FailedToSaveDownloadedFile error
  | FailedToExtractBinary error
  | FailedToMakeBinaryExecutable error
  | FailedToGetLatestReleaseInfo error
  | FailedToGetLatestReleaseInfoHTTP nat bytes
  | FailedToParseReleaseInfo
  | NoSuitableBinaryBuildFromSource string string
  | NoSuitableBinary string string
  | BinaryNotFoundInZip
  | BinaryNotFoundInTarGz

text \<open>One constructor for each line the file prints on the error stream.\<close>

datatype msg =
    ErrorGettingGitHubToken error
  | ErrorWithServerBinary error
  | UsingServerBinary string
  | ErrorRunningMCPServer error
  | BinaryNotFoundDownloading
  | DownloadingFrom string
  | RequestingLatestReleaseInfoFrom string
  | FoundReleaseWithAssets nat
  | AssetLine string
  | LookingForPattern string
  | FoundMatchingAsset string
  | TryingMacOSAlternatives
  | FoundMatchingAssetWithMacOSAlternative string
  | TryingArchitectureAlternatives
  | FoundMatchingAssetWithArchitectureAlternative string
  | LookingForAnyBinaryFor string
  | FoundOSMatchingAsset string

subsection \<open>The filesystem and the package os\<close>

text \<open>
  A path names a directory, or an entry that is not a directory (\<open>File\<close>, with its
  content and its permission bits), or nothing. \<^verbatim>\<open>os.Stat\<close> followed by
  \<^verbatim>\<open>IsDir\<close> is all the file asks about an entry, so the entries that are not
  directories need no finer kinds. The operations of the package \<^verbatim>\<open>os\<close> fail where
  the shape of the filesystem makes them fail (a missing entry, a missing parent, a
  directory in the place of a file); access rights and full disks are left out.
\<close>

datatype node = File bytes nat | Directory

type_synonym filesystem = "string \<rightharpoonup> node"

text \<open>A stream delivers its bytes and then ends, with \<^verbatim>\<open>io.EOF\<close> or with an error.\<close>

type_synonym stream = "bytes \<times> error option"

definition IsPathSeparator :: "string \<Rightarrow> char \<Rightarrow> bool" where
  "IsPathSeparator goos c = (c = CHR ''/'' \<or> (goos = ''windows'' \<and> c = CHR 0x5C))"

text \<open>
  The parent that \<^verbatim>\<open>os.MkdirAll\<close> recurses on: the path without its trailing
  separators and without its last element.
\<close>

definition parentOf :: "string \<Rightarrow> string \<Rightarrow> string" where
  "parentOf goos path =
     rev (tl (dropWhile (\<lambda>c. \<not> IsPathSeparator goos c)
                (dropWhile (IsPathSeparator goos) (rev path))))"

definition os_Mkdir :: "string \<Rightarrow> filesystem \<Rightarrow> error option \<times> filesystem" where
  "os_Mkdir path fs =
     (if path = [] then (Some (OSError ''ENOENT''), fs)
      else if fs path \<noteq> None then (Some (OSError ''EEXIST''), fs)
      else (None, fs(path \<mapsto> Directory)))"

text \<open>
  \<^verbatim>\<open>os.MkdirAll\<close>, as the standard library writes it: nothing to do at a directory,
  an error at another entry; otherwise the parent first (when there is one), then
  \<^verbatim>\<open>Mkdir\<close> of the path itself. Volume names of Windows paths are not told apart from
  other elements.
\<close>

function os_MkdirAll :: "string \<Rightarrow> string \<Rightarrow> filesystem \<Rightarrow> error option \<times> filesystem" where
  "os_MkdirAll goos path fs =
     (case fs path of
        Some Directory \<Rightarrow> (None, fs)
      | Some (File c m) \<Rightarrow> (Some (OSError ''ENOTDIR''), fs)
      | None \<Rightarrow>
          (if parentOf goos path \<noteq> [] then
             (case os_MkdirAll goos (parentOf goos path) fs of
                (Some e, fs') \<Rightarrow> (Some e, fs')
              | (None, fs') \<Rightarrow> os_Mkdir path fs')
           else os_Mkdir path fs))"
  by pat_completeness auto
termination
proof (relation "measure (\<lambda>(goos, path, fs). length path)")
  show "wf (measure (\<lambda>(goos, path, fs). length path))" by simp
next
  fix goos path :: string and fs :: filesystem
  assume "parentOf goos path \<noteq> []"
  then have ne: "path \<noteq> []" by (auto simp: parentOf_def)
  let ?a = "dropWhile (IsPathSeparator goos) (rev path)"
  let ?b = "dropWhile (\<lambda>c. \<not> IsPathSeparator goos c) ?a"
  have "length ?b \<le> length ?a" by (rule length_dropWhile_le)
  also have "length ?a \<le> length (rev path)" by (rule length_dropWhile_le)
  finally have le: "length ?b \<le> length path" by simp
  have "length (parentOf goos path) = length ?b - 1"
    by (simp add: parentOf_def)
  moreover have "0 < length path" using ne by simp
  ultimately have "length (parentOf goos path) < length path" using le by arith
  then show "((goos, parentOf goos path, fs), (goos, path, fs))
              \<in> measure (\<lambda>(goos, path, fs). length path)"
    by simp
qed

declare os_MkdirAll.simps [simp del]

text \<open>
  The directory an entry is made in exists: it is the working directory or the root (no
  parent is left in the path), or a directory of the filesystem.
\<close>

definition parentExists :: "string \<Rightarrow> string \<Rightarrow> filesystem \<Rightarrow> bool" where
  "parentExists goos name fs =
     (parentOf goos name = [] \<or> fs (parentOf goos name) = Some Directory)"

text \<open>
  \<^verbatim>\<open>os.Create\<close> truncates an entry that is not a directory and keeps its permission
  bits; where there is no entry it makes a new, empty file with the bits \<open>newMode\<close>
  (0666 less the umask of the process).
\<close>

definition os_Create :: "string \<Rightarrow> nat \<Rightarrow> string \<Rightarrow> filesystem \<Rightarrow> error + filesystem" where
  "os_Create goos newMode name fs =
     (case fs name of
        Some Directory \<Rightarrow> Inl (OSError ''EISDIR'')
      | Some (File c m) \<Rightarrow> Inr (fs(name \<mapsto> File [] m))
      | None \<Rightarrow>
          (if name \<noteq> [] \<and> parentExists goos name fs
           then Inr (fs(name \<mapsto> File [] newMode))
           else Inl (OSError ''ENOENT'')))"

text \<open>
  \<^verbatim>\<open>io.Copy\<close> into the file opened at \<open>name\<close>: the bytes the source delivers are
  appended, and the error that ended the source, if any, is returned.
\<close>

definition io_Copy :: "string \<Rightarrow> stream \<Rightarrow> filesystem \<Rightarrow> error option \<times> filesystem" where
  "io_Copy name src fs =
     (case fs name of
        Some (File c m) \<Rightarrow> (snd src, fs(name \<mapsto> File (c @ fst src) m))
      | _ \<Rightarrow> (Some (OSError ''EBADF''), fs))"

definition os_Chmod :: "string \<Rightarrow> nat \<Rightarrow> filesystem \<Rightarrow> error + filesystem" where
  "os_Chmod name mode fs =
     (case fs name of
        None \<Rightarrow> Inl (OSError ''ENOENT'')
      | Some Directory \<Rightarrow> Inr fs
      | Some (File c m) \<Rightarrow> Inr (fs(name \<mapsto> File c mode)))"

definition os_Remove :: "string \<Rightarrow> filesystem \<Rightarrow> filesystem" where
  "os_Remove name fs = fs(name := None)"

definition os_Rename :: "string \<Rightarrow> string \<Rightarrow> string \<Rightarrow> filesystem \<Rightarrow> error + filesystem" where
  "os_Rename goos oldpath newpath fs =
     (case fs oldpath of
        None \<Rightarrow> Inl (OSError ''ENOENT'')
      | Some n \<Rightarrow>
          (if fs newpath = Some Directory then Inl (OSError ''EISDIR'')
           else if newpath = [] \<or> \<not> parentExists goos newpath fs then Inl (OSError ''ENOENT'')
           else Inr ((fs(oldpath := None))(newpath \<mapsto> n))))"

text \<open>The permission bits \<^verbatim>\<open>0755\<close> and \<^verbatim>\<open>0600\<close>, written in octal in Go.\<close>

definition mode_0755 :: nat where
  "mode_0755 = 7 * 64 + 5 * 8 + 5"

definition mode_0600 :: nat where
  "mode_0600 = 6 * 64"

text \<open>\<^verbatim>\<open>tar.TypeReg\<close>, the type flag of a regular file.\<close>

definition tar_TypeReg :: char where
  "tar_TypeReg = CHR ''0''"

subsection \<open>What the program is given, and what it changes\<close>

datatype cmd_output = Output bytes | ExitError string | StartError error

datatype run_result = Exited nat | FailedToStart error

record http_request =
  URL :: string
  Header :: "(string \<times> string) list"

record http_response =
  StatusCode :: nat
  Body :: stream

record asset =
  Name :: string
  BrowserDownloadURL :: string

record release =
  Assets :: "asset list"
  TagName :: string

record zip_File =
  zipName :: string
  zipOpen :: "error + stream"

record tar_Header =
  tarName :: string
  Typeflag :: char

text \<open>
  What \<^verbatim>\<open>tar.Reader.Next\<close> returns, call after call: a header with the content of its
  entry, or \<^verbatim>\<open>io.EOF\<close>, or an error.
\<close>

datatype tar_Reader = TarEOF | TarError error | TarNext tar_Header stream tar_Reader

record externals =
  GOOS :: string
  GOARCH :: string
  Args :: "string list"
  ghAuthToken :: "nat \<Rightarrow> cmd_output"
  filepath_Join :: "string list \<Rightarrow> string"
  filepath_Dir :: "string \<Rightarrow> string"
  os_Executable :: "error + string"
  os_UserHomeDir :: "error + string"
  exec_LookPath :: "string \<Rightarrow> error + string"
  os_CreateTemp :: "string \<Rightarrow> error + string"
  newFileMode :: nat
  http_Do :: "http_request \<Rightarrow> error + http_response"
  json_Decode :: "stream \<Rightarrow> release option"
  zip_NewReader :: "bytes \<Rightarrow> error + zip_File list"
  gzip_tar_NewReader :: "bytes \<Rightarrow> error + tar_Reader"
  cmd_Run :: "string list \<Rightarrow> (string \<Rightarrow> string) \<Rightarrow> run_result"

text \<open>
  \<open>ghAuthToken E n\<close> is what the run number \<open>n\<close> of \<^verbatim>\<open>gh auth token\<close> gives (the
  runs of one process are counted from \<open>ghCalls\<close>); \<open>os_CreateTemp E pattern\<close> is the
  name of the temporary file; \<open>newFileMode\<close> is the permission bits of a file that
  \<^verbatim>\<open>os.Create\<close> makes (0666 less the umask); \<open>cmd_Run E argv env\<close> is how the helper
  started with these arguments and this environment ends. \<^verbatim>\<open>filepath.Join\<close> and
  \<^verbatim>\<open>filepath.Dir\<close> are parameters too: what they return depends on the platform, and
  nothing below depends on how they build a path. The codecs (\<open>json_Decode\<close>,
  \<open>zip_NewReader\<close>, \<open>gzip_tar_NewReader\<close>) turn the bytes read into what the file
  reads from them.
\<close>

record world =
  environ :: "string \<Rightarrow> string"
  files :: filesystem
  ghCalls :: nat
  requests :: "http_request list"
  spawned :: "string list list"
  stderr :: "msg list"
  stdout :: "string list"

definition version :: string where
  "version = ''dev''"

definition releaseAPIURL :: string where
  "releaseAPIURL = ''https://api.github.com/repos/github/github-mcp-server/releases/latest''"

definition Fprintf_Stderr :: "msg \<Rightarrow> world \<Rightarrow> world" where
  "Fprintf_Stderr m w = w\<lparr>stderr := stderr w @ [m]\<rparr>"

definition Println :: "string \<Rightarrow> world \<Rightarrow> world" where
  "Println s w = w\<lparr>stdout := stdout w @ [s]\<rparr>"

subsection \<open>getGitHubToken\<close>

definition getGitHubToken :: "externals \<Rightarrow> world \<Rightarrow> (error + string) \<times> world" where
  "getGitHubToken E w =
     (let w' = w\<lparr>ghCalls := Suc (ghCalls w)\<rparr> in
      case ghAuthToken E (ghCalls w) of
        ExitError err \<Rightarrow> (Inl (FailedToGetGitHubToken err), w')
      | StartError e \<Rightarrow> (Inl (FailedToExecuteGhAuthToken e), w')
      | Output out \<Rightarrow>
          (let token = TrimSpace out in
           if token = [] then (Inl ReceivedEmptyToken, w') else (Inr token, w')))"

subsection \<open>binaryName, fileExists, getExtensionDataDir\<close>

definition binaryName :: "externals \<Rightarrow> string" where
  "binaryName E =
     (let baseName = ''github-mcp-server'' in
      if GOOS E = ''windows'' then baseName @ ''.exe'' else baseName)"

definition fileExists :: "filesystem \<Rightarrow> string \<Rightarrow> bool" where
  "fileExists fs filename =
     (case fs filename of None \<Rightarrow> False | Some Directory \<Rightarrow> False | Some (File c m) \<Rightarrow> True)"

text \<open>
  The result of \<^verbatim>\<open>os.MkdirAll\<close> is dropped (\<^verbatim>\<open>_ =\<close>); what it made of the filesystem
  stays.
\<close>

definition getExtensionDataDir :: "externals \<Rightarrow> world \<Rightarrow> string \<times> world" where
  "getExtensionDataDir E w =
     (let xdgDataHome = environ w ''XDG_DATA_HOME'';
          mk = (\<lambda>dataDir. (dataDir, w\<lparr>files := snd (os_MkdirAll (GOOS E) dataDir (files w))\<rparr>))
      in
      if xdgDataHome \<noteq> [] then mk (filepath_Join E [xdgDataHome, ''gh-github-mcp-server''])
      else
        (case os_UserHomeDir E of
           Inl err \<Rightarrow> (''.'', w)
         | Inr homeDir \<Rightarrow>
             (if GOOS E = ''windows'' then
                mk (filepath_Join E [homeDir, ''AppData'', ''Local'', ''gh-github-mcp-server''])
              else if GOOS E = ''darwin'' then
                mk (filepath_Join E
                      [homeDir, ''Library'', ''Application Support'', ''gh-github-mcp-server''])
              else
                mk (filepath_Join E [homeDir, ''.local'', ''share'', ''gh-github-mcp-server'']))))"

subsection \<open>findServerBinary\<close>

text \<open>The empty string is the result when no check finds the binary.\<close>

definition findServerBinary :: "externals \<Rightarrow> world \<Rightarrow> string \<times> world" where
  "findServerBinary E w =
     (let customPath = environ w ''GITHUB_MCP_SERVER_PATH'' in
      if customPath \<noteq> [] \<and> fileExists (files w) customPath then (customPath, w)
      else
        (let workspaceDir = environ w ''GITHUB_MCP_SERVER_DIR'';
             binPath2 = filepath_Join E [workspaceDir, ''bin'', binaryName E]
         in
         if workspaceDir \<noteq> [] \<and> fileExists (files w) binPath2 then (binPath2, w)
         else
           (let (dataDir, w1) = getExtensionDataDir E w;
                binPath3 = filepath_Join E [dataDir, ''bin'', binaryName E]
            in
            if fileExists (files w1) binPath3 then (binPath3, w1)
            else
              (let fromPATH =
                     (case exec_LookPath E ''github-mcp-server'' of
                        Inr path \<Rightarrow> (path, w1)
                      | Inl lookErr \<Rightarrow> ([], w1))
               in
               case os_Executable E of
                 Inl err \<Rightarrow> fromPATH
               | Inr execPath \<Rightarrow>
                   (let dir = filepath_Dir E execPath;
                        binPath4 = filepath_Join E [dir, ''bin'', binaryName E];
                        binPath5 = filepath_Join E [dir, binaryName E]
                    in
                    if fileExists (files w1) binPath4 then (binPath4, w1)
                    else if fileExists (files w1) binPath5 then (binPath5, w1)
                    else fromPATH)))))"

subsection \<open>getLatestReleaseAssetURL\<close>

text \<open>The four tests of the four loops over \<^verbatim>\<open>release.Assets\<close>, in the order of the file.\<close>

definition matchStandard :: "externals \<Rightarrow> asset \<Rightarrow> bool" where
  "matchStandard E a =
     (let lowerName = ToLower (Name a) in
      Contains lowerName (ToLower (GOOS E)) \<and> Contains lowerName (ToLower (GOARCH E)))"

definition matchMacVariant :: "externals \<Rightarrow> string \<Rightarrow> asset \<Rightarrow> bool" where
  "matchMacVariant E variant a =
     (let lowerName = ToLower (Name a) in
      Contains lowerName variant \<and>
      (Contains lowerName (GOARCH E) \<or> Contains lowerName ''x86_64'' \<or>
       Contains lowerName ''amd64''))"

definition matchArchAlternative :: "externals \<Rightarrow> asset \<Rightarrow> bool" where
  "matchArchAlternative E a =
     (let lowerName = ToLower (Name a) in
      Contains lowerName (ToLower (GOOS E)) \<and> Contains lowerName ''x86_64'')"

definition matchAnyForOS :: "externals \<Rightarrow> asset \<Rightarrow> bool" where
  "matchAnyForOS E a =
     (let lowerName = ToLower (Name a) in
      Contains lowerName (ToLower (GOOS E)) \<and>
      \<not> Contains lowerName ''.sha'' \<and>
      \<not> Contains lowerName ''.md5'' \<and>
      \<not> Contains lowerName ''src'' \<and>
      \<not> Contains lowerName ''source'')"

text \<open>The loop over \<^verbatim>\<open>macVariants\<close>, with the loop over the assets inside it.\<close>

fun findMacVariant :: "externals \<Rightarrow> string list \<Rightarrow> asset list \<Rightarrow> asset option" where
  "findMacVariant E [] assets = None"
| "findMacVariant E (variant # variants) assets =
     (case find (matchMacVariant E variant) assets of
        Some a \<Rightarrow> Some a
      | None \<Rightarrow> findMacVariant E variants assets)"

definition macVariants :: "string list" where
  "macVariants = [''mac'', ''macos'', ''osx'']"

text \<open>
  The second half of \<^verbatim>\<open>getLatestReleaseAssetURL\<close>, from the listing of the assets on:
  the choice of the asset among those of the parsed release.
\<close>

definition selectAsset :: "externals \<Rightarrow> asset list \<Rightarrow> world \<Rightarrow> (error + string) \<times> world" where
  "selectAsset E assets w =
     (let w0 = foldl (\<lambda>v a. Fprintf_Stderr (AssetLine (Name a)) v)
                 (Fprintf_Stderr (FoundReleaseWithAssets (length assets)) w) assets;
          w1 = Fprintf_Stderr
                 (LookingForPattern (''github-mcp-server.*'' @ GOOS E @ ''.*'' @ GOARCH E)) w0
      in
      case find (matchStandard E) assets of
        Some a \<Rightarrow> (Inr (BrowserDownloadURL a), Fprintf_Stderr (FoundMatchingAsset (Name a)) w1)
      | None \<Rightarrow>
          (let w2 = (if GOOS E = ''darwin'' then Fprintf_Stderr TryingMacOSAlternatives w1
                     else w1)
           in
           case (if GOOS E = ''darwin'' then findMacVariant E macVariants assets else None) of
             Some a \<Rightarrow>
               (Inr (BrowserDownloadURL a),
                Fprintf_Stderr (FoundMatchingAssetWithMacOSAlternative (Name a)) w2)
           | None \<Rightarrow>
               (let w3 = (if GOARCH E = ''amd64''
                          then Fprintf_Stderr TryingArchitectureAlternatives w2 else w2)
                in
                case (if GOARCH E = ''amd64'' then find (matchArchAlternative E) assets
                      else None) of
                  Some a \<Rightarrow>
                    (Inr (BrowserDownloadURL a),
                     Fprintf_Stderr (FoundMatchingAssetWithArchitectureAlternative (Name a)) w3)
                | None \<Rightarrow>
                    (let w4 = Fprintf_Stderr (LookingForAnyBinaryFor (GOOS E)) w3 in
                     case find (matchAnyForOS E) assets of
                       Some a \<Rightarrow>
                         (Inr (BrowserDownloadURL a),
                          Fprintf_Stderr (FoundOSMatchingAsset (Name a)) w4)
                     | None \<Rightarrow>
                         (if GOOS E = ''darwin'' \<and> GOARCH E = ''amd64''
                          then (Inl (NoSuitableBinaryBuildFromSource (GOOS E) (GOARCH E)), w4)
                          else (Inl (NoSuitableBinary (GOOS E) (GOARCH E)), w4))))))"

text \<open>
  \<^verbatim>\<open>http.NewRequest\<close> cannot fail on the constant \<open>releaseAPIURL\<close>. The error of
  \<open>getGitHubToken\<close> is dropped (\<^verbatim>\<open>token, _ :=\<close>): the token is then the empty string.
\<close>

definition getLatestReleaseAssetURL :: "externals \<Rightarrow> world \<Rightarrow> (error + string) \<times> world" where
  "getLatestReleaseAssetURL E w =
     (let (tok, w1) = getGitHubToken E w;
          token = (case tok of Inl err \<Rightarrow> [] | Inr t \<Rightarrow> t);
          req = \<lparr>URL = releaseAPIURL,
                 Header = [(''User-Agent'', ''gh-github-mcp-server/'' @ version)] @
                          (if token \<noteq> [] then [(''Authorization'', ''token '' @ token)]
                           else [])\<rparr>;
          w2 = Fprintf_Stderr (RequestingLatestReleaseInfoFrom releaseAPIURL) w1;
          w3 = w2\<lparr>requests := requests w2 @ [req]\<rparr>
      in
      case http_Do E req of
        Inl err \<Rightarrow> (Inl (FailedToGetLatestReleaseInfo err), w3)
      | Inr resp \<Rightarrow>
          (if StatusCode resp \<noteq> 200
           then (Inl (FailedToGetLatestReleaseInfoHTTP (StatusCode resp) (fst (Body resp))), w3)
           else
             (case json_Decode E (Body resp) of
                None \<Rightarrow> (Inl FailedToParseReleaseInfo, w3)
              | Some release \<Rightarrow> selectAsset E (Assets release) w3)))"

subsection \<open>extractFromZip, extractFromTarGz\<close>

definition zip_OpenReader :: "externals \<Rightarrow> filesystem \<Rightarrow> string \<Rightarrow> error + zip_File list" where
  "zip_OpenReader E fs name =
     (case fs name of
        Some (File c m) \<Rightarrow> zip_NewReader E c
      | Some Directory \<Rightarrow> Inl (OSError ''EISDIR'')
      | None \<Rightarrow> Inl (OSError ''ENOENT''))"

definition extractFromZip ::
    "externals \<Rightarrow> string \<Rightarrow> string \<Rightarrow> filesystem \<Rightarrow> error option \<times> filesystem" where
  "extractFromZip E zipPath targetPath fs =
     (case zip_OpenReader E fs zipPath of
        Inl err \<Rightarrow> (Some err, fs)
      | Inr readerFile \<Rightarrow>
          (case find (\<lambda>file. Contains (zipName file) ''github-mcp-server'' \<and>
                             \<not> HasSuffix (zipName file) ''/'') readerFile of
             None \<Rightarrow> (Some BinaryNotFoundInZip, fs)
           | Some binaryFile \<Rightarrow>
               (case zipOpen binaryFile of
                  Inl err \<Rightarrow> (Some err, fs)
                | Inr src \<Rightarrow>
                    (case os_Create (GOOS E) (newFileMode E) targetPath fs of
                       Inl err \<Rightarrow> (Some err, fs)
                     | Inr fs1 \<Rightarrow> io_Copy targetPath src fs1))))"

text \<open>The loop over \<^verbatim>\<open>tr.Next()\<close>.\<close>

fun extractFromTar ::
    "externals \<Rightarrow> string \<Rightarrow> tar_Reader \<Rightarrow> filesystem \<Rightarrow> error option \<times> filesystem" where
  "extractFromTar E targetPath TarEOF fs = (Some BinaryNotFoundInTarGz, fs)"
| "extractFromTar E targetPath (TarError err) fs = (Some err, fs)"
| "extractFromTar E targetPath (TarNext header content tr) fs =
     (if Contains (tarName header) ''github-mcp-server'' \<and> Typeflag header = tar_TypeReg then
        (case os_Create (GOOS E) (newFileMode E) targetPath fs of
           Inl err \<Rightarrow> (Some err, fs)
         | Inr fs1 \<Rightarrow> io_Copy targetPath content fs1)
      else extractFromTar E targetPath tr fs)"

definition extractFromTarGz ::
    "externals \<Rightarrow> string \<Rightarrow> string \<Rightarrow> filesystem \<Rightarrow> error option \<times> filesystem" where
  "extractFromTarGz E tarPath targetPath fs =
     (case fs tarPath of
        None \<Rightarrow> (Some (OSError ''ENOENT''), fs)
      | Some Directory \<Rightarrow> (Some (OSError ''EISDIR''), fs)
      | Some (File c m) \<Rightarrow>
          (case gzip_tar_NewReader E c of
             Inl err \<Rightarrow> (Some err, fs)
           | Inr tr \<Rightarrow> extractFromTar E targetPath tr fs))"

subsection \<open>downloadServerBinary, ensureServerBinary\<close>

text \<open>
  \<^verbatim>\<open>defer os.Remove(tmpFile.Name())\<close> runs at every return that follows the creation of
  the temporary file: \<open>leave\<close> is that return.
\<close>

definition downloadServerBinary :: "externals \<Rightarrow> world \<Rightarrow> (error + string) \<times> world" where
  "downloadServerBinary E w =
     (case getLatestReleaseAssetURL E w of
        (Inl err, w1) \<Rightarrow> (Inl err, w1)
      | (Inr assetURL, w1) \<Rightarrow>
          (let (dataDir, w2) = getExtensionDataDir E w1;
               binDir = filepath_Join E [dataDir, ''bin'']
           in
           case os_MkdirAll (GOOS E) binDir (files w2) of
             (Some err, fs3) \<Rightarrow> (Inl (FailedToCreateBinaryDirectory err), w2\<lparr>files := fs3\<rparr>)
           | (None, fs3) \<Rightarrow>
               (let req = \<lparr>URL = assetURL, Header = []\<rparr>;
                    w3 = Fprintf_Stderr (DownloadingFrom assetURL) (w2\<lparr>files := fs3\<rparr>);
                    w4 = w3\<lparr>requests := requests w3 @ [req]\<rparr>
                in
                case http_Do E req of
                  Inl err \<Rightarrow> (Inl (FailedToDownloadBinary err), w4)
                | Inr resp \<Rightarrow>
                    (if StatusCode resp \<noteq> 200
                     then (Inl (FailedToDownloadBinaryHTTP (StatusCode resp)), w4)
                     else
                       (case os_CreateTemp E ''github-mcp-server-*'' of
                          Inl err \<Rightarrow> (Inl (FailedToCreateTemporaryFile err), w4)
                        | Inr tmpName \<Rightarrow>
                            (let leave = (\<lambda>r fs. (r, w4\<lparr>files := os_Remove tmpName fs\<rparr>));
                                 fs4 = (files w4)(tmpName \<mapsto> File [] mode_0600)
                             in
                             case io_Copy tmpName (Body resp) fs4 of
                               (Some err, fs5) \<Rightarrow> leave (Inl (FailedToSaveDownloadedFile err)) fs5
                             | (None, fs5) \<Rightarrow>
                                 (let targetPath = filepath_Join E [binDir, binaryName E] in
                                  case (if HasSuffix assetURL ''.zip''
                                        then extractFromZip E tmpName targetPath fs5
                                        else if HasSuffix assetURL ''.tar.gz''
                                        then extractFromTarGz E tmpName targetPath fs5
                                        else (case os_Rename (GOOS E) tmpName targetPath fs5 of
                                                Inl err \<Rightarrow> (Some err, fs5)
                                              | Inr fs6 \<Rightarrow> (None, fs6))) of
                                    (Some err, fs6) \<Rightarrow> leave (Inl (FailedToExtractBinary err)) fs6
                                  | (None, fs6) \<Rightarrow>
                                      (case os_Chmod targetPath mode_0755 fs6 of
                                         Inl err \<Rightarrow>
                                           leave (Inl (FailedToMakeBinaryExecutable err)) fs6
                                       | Inr fs7 \<Rightarrow> leave (Inr targetPath) fs7))))))))"

definition ensureServerBinary :: "externals \<Rightarrow> world \<Rightarrow> (error + string) \<times> world" where
  "ensureServerBinary E w =
     (let (binPath, w1) = findServerBinary E w in
      if binPath \<noteq> [] then (Inr binPath, w1)
      else
        (case downloadServerBinary E (Fprintf_Stderr BinaryNotFoundDownloading w1) of
           (Inl err, w2) \<Rightarrow> (Inl (FailedToDownloadServerBinary err), w2)
         | (Inr binPath, w2) \<Rightarrow> (Inr binPath, w2)))"

subsection \<open>main\<close>

definition usage :: "string list" where
  "usage =
     [''GitHub MCP Server CLI Extension'',
      '''',
      ''USAGE:'',
      ''  gh github-mcp-server stdio [flags] - Start the MCP server in stdio mode'',
      '''',
      ''FLAGS:'',
      ''  --read-only            Restrict the server to read-only operations'',
      ''  --log-file string      Path to log file'',
      ''  --gh-host string       Specify the GitHub hostname (for GitHub Enterprise)'',
      '''',
      ''This extension uses your GitHub CLI authentication'',
      ''to securely communicate with GitHub APIs.'']"

text \<open>
  The result is the exit status of the process (\<^verbatim>\<open>os.Exit(1)\<close>, or 0 when \<open>main\<close>
  returns) and the world it leaves. \<open>spawned\<close> records the argument vector of every
  \<^verbatim>\<open>cmd.Run()\<close>; \<^verbatim>\<open>cmd.Run()\<close> returns an error unless the helper started and exited
  with status 0.
\<close>

definition main :: "externals \<Rightarrow> world \<Rightarrow> nat \<times> world" where
  "main E w =
     (if length (Args E) > 1 \<and> (Args E ! 1 = ''-v'' \<or> Args E ! 1 = ''--version'') then
        (0, Println (''gh-github-mcp-server v'' @ version) w)
      else if length (Args E) > 1 \<and> Args E ! 1 = ''stdio'' then
        (case getGitHubToken E w of
           (Inl err, w1) \<Rightarrow> (1, Fprintf_Stderr (ErrorGettingGitHubToken err) w1)
         | (Inr token, w1) \<Rightarrow>
             (let w2 = w1\<lparr>environ := (environ w1)(''GITHUB_PERSONAL_ACCESS_TOKEN'' := token)\<rparr> in
              case ensureServerBinary E w2 of
                (Inl err, w3) \<Rightarrow> (1, Fprintf_Stderr (ErrorWithServerBinary err) w3)
              | (Inr serverPath, w3) \<Rightarrow>
                  (let w4 = Fprintf_Stderr (UsingServerBinary serverPath) w3;
                       cmdArgs = [serverPath, ''stdio''] @
                                 (if length (Args E) > 2 then drop 2 (Args E) else []);
                       w5 = w4\<lparr>spawned := spawned w4 @ [cmdArgs]\<rparr>
                   in
                   case cmd_Run E cmdArgs (environ w5) of
                     Exited c \<Rightarrow>
                       (if c = 0 then (0, w5)
                        else (1, Fprintf_Stderr (ErrorRunningMCPServer (ExitStatus c)) w5))
                   | FailedToStart err \<Rightarrow>
                       (1, Fprintf_Stderr (ErrorRunningMCPServer err) w5))))
      else (0, foldl (\<lambda>v s. Println s v) w usage))"

subsection \<open>The terms of the specification\<close>

text \<open>
  The six candidates of the Binary Locator as section 4.1 of the specification lists
  them, in priority order, each with whether it is found: a file is there at the path
  (ranks 1 to 5, on the filesystem \<open>locate()\<close> starts from), or the search path resolves
  the bare name (rank 6). A candidate that cannot be formed (its environment variable is
  not set, the launcher's own path is unknown) is not found.
\<close>

definition candidates :: "externals \<Rightarrow> world \<Rightarrow> (string \<times> bool) list" where
  "candidates E w =
     (let fs = files w;
          customPath = environ w ''GITHUB_MCP_SERVER_PATH'';
          workspaceDir = environ w ''GITHUB_MCP_SERVER_DIR'';
          dataDir = fst (getExtensionDataDir E w);
          c2 = filepath_Join E [workspaceDir, ''bin'', binaryName E];
          c3 = filepath_Join E [dataDir, ''bin'', binaryName E]
      in
      [(customPath, customPath \<noteq> [] \<and> fileExists fs customPath),
       (c2, workspaceDir \<noteq> [] \<and> fileExists fs c2),
       (c3, fileExists fs c3),
       (case os_Executable E of
          Inl err \<Rightarrow> ([], False)
        | Inr execPath \<Rightarrow>
            (let c4 = filepath_Join E [filepath_Dir E execPath, ''bin'', binaryName E]
             in (c4, fileExists fs c4))),
       (case os_Executable E of
          Inl err \<Rightarrow> ([], False)
        | Inr execPath \<Rightarrow>
            (let c5 = filepath_Join E [filepath_Dir E execPath, binaryName E]
             in (c5, fileExists fs c5))),
       (case exec_LookPath E ''github-mcp-server'' of
          Inl err \<Rightarrow> ([], False)
        | Inr path \<Rightarrow> (path, True))])"

text \<open>
  The four rules of the Release Resolver as section 4.2 of the specification words them,
  on the name of an asset; \<open>containsFold\<close> is the case-insensitive substring test.
\<close>

definition containsFold :: "string \<Rightarrow> string \<Rightarrow> bool" where
  "containsFold name sub = Contains (ToLower name) (ToLower sub)"

definition rule_OS_arch :: "externals \<Rightarrow> string \<Rightarrow> bool" where
  "rule_OS_arch E name = (containsFold name (GOOS E) \<and> containsFold name (GOARCH E))"

definition rule_macOS_alternatives :: "externals \<Rightarrow> string \<Rightarrow> bool" where
  "rule_macOS_alternatives E name =
     (GOOS E = ''darwin'' \<and>
      (containsFold name ''mac'' \<or> containsFold name ''macos'' \<or> containsFold name ''osx'') \<and>
      (containsFold name (GOARCH E) \<or> containsFold name ''x86_64'' \<or>
       containsFold name ''amd64''))"

definition rule_OS_x86_64 :: "externals \<Rightarrow> string \<Rightarrow> bool" where
  "rule_OS_x86_64 E name =
     (GOARCH E = ''amd64'' \<and> containsFold name (GOOS E) \<and> containsFold name ''x86_64'')"

definition rule_OS_only :: "externals \<Rightarrow> string \<Rightarrow> bool" where
  "rule_OS_only E name =
     (containsFold name (GOOS E) \<and>
      \<not> (containsFold name ''.sha'' \<or> containsFold name ''.md5'' \<or>
         containsFold name ''src'' \<or> containsFold name ''source''))"

definition fallbackSequence :: "externals \<Rightarrow> (string \<Rightarrow> bool) list" where
  "fallbackSequence E =
     [rule_OS_arch E, rule_macOS_alternatives E, rule_OS_x86_64 E, rule_OS_only E]"

text \<open>The line by which the code reports that the rule number \<open>k\<close> chose an asset.\<close>

definition foundBy :: "nat \<Rightarrow> string \<Rightarrow> msg" where
  "foundBy k name =
     [FoundMatchingAsset name,
      FoundMatchingAssetWithMacOSAlternative name,
      FoundMatchingAssetWithArchitectureAlternative name,
      FoundOSMatchingAsset name] ! k"

text \<open>The headers a tar reader delivers, and how its reading ends.\<close>

fun tarHeaders :: "tar_Reader \<Rightarrow> tar_Header list" where
  "tarHeaders TarEOF = []"
| "tarHeaders (TarError err) = []"
| "tarHeaders (TarNext header content tr) = header # tarHeaders tr"

fun tarEnd :: "tar_Reader \<Rightarrow> error option" where
  "tarEnd TarEOF = None"
| "tarEnd (TarError err) = Some err"
| "tarEnd (TarNext header content tr) = tarEnd tr"

subsection \<open>A concrete machine\<close>

text \<open>
  \<^verbatim>\<open>filepath.Join\<close> and \<^verbatim>\<open>filepath.Dir\<close> as they work on clean Unix paths, and a Linux
  machine on which nothing is installed and nothing answers; the examples below change
  it field by field.
\<close>

definition unixJoin :: "string list \<Rightarrow> string" where
  "unixJoin elem =
     (case filter (\<lambda>e. e \<noteq> []) elem of
        [] \<Rightarrow> []
      | e # es \<Rightarrow> foldl (\<lambda>p x. p @ ''/'' @ x) e es)"

definition unixDir :: "string \<Rightarrow> string" where
  "unixDir path =
     (let d = dropWhile (\<lambda>c. c \<noteq> CHR ''/'') (rev path);
          d' = dropWhile (\<lambda>c. c = CHR ''/'') d
      in if d = [] then ''.'' else if d' = [] then ''/'' else rev d')"

definition linuxBox :: externals where
  "linuxBox =
     \<lparr>GOOS = ''linux'', GOARCH = ''amd64'',
      Args = [''gh-github-mcp-server'', ''stdio'', ''--read-only''],
      ghAuthToken = (\<lambda>n. Output ''gho_abc''),
      filepath_Join = unixJoin,
      filepath_Dir = unixDir,
      os_Executable = Inr ''/ext/gh-github-mcp-server'',
      os_UserHomeDir = Inr ''/home/u'',
      exec_LookPath = (\<lambda>file. Inl (OSError ''executable file not found in $PATH'')),
      os_CreateTemp = (\<lambda>pattern. Inr ''/tmp/github-mcp-server-42''),
      newFileMode = 6 * 64 + 4 * 8 + 4,
      http_Do = (\<lambda>req. Inl (OSError ''no route to host'')),
      json_Decode = (\<lambda>body. None),
      zip_NewReader = (\<lambda>b. Inl (OSError ''zip: not a valid zip file'')),
      gzip_tar_NewReader = (\<lambda>b. Inl (OSError ''gzip: invalid header'')),
      cmd_Run = (\<lambda>argv env. Exited 0)\<rparr>"

definition emptyDisk :: world where
  "emptyDisk =
     \<lparr>environ = (\<lambda>key. []),
      files = [''/home'' \<mapsto> Directory, ''/home/u'' \<mapsto> Directory, ''/tmp'' \<mapsto> Directory],
      ghCalls = 0, requests = [], spawned = [], stderr = [], stdout = []\<rparr>"

text \<open>The same disk with the helper installed at one place or another.\<close>

definition helperFile :: node where
  "helperFile = File ''#!helper'' mode_0755"

definition overrideDisk :: world where
  "overrideDisk =
     emptyDisk\<lparr>environ := (environ emptyDisk)(''GITHUB_MCP_SERVER_PATH'' := ''/opt/mcp/server''),
               files := (files emptyDisk)(''/opt/mcp/server'' \<mapsto> helperFile)\<rparr>"

definition coLocatedDisk :: world where
  "coLocatedDisk =
     emptyDisk\<lparr>files := (files emptyDisk)(''/ext/bin/github-mcp-server'' \<mapsto> helperFile)\<rparr>"

definition staleOverrideDisk :: world where
  "staleOverrideDisk =
     emptyDisk\<lparr>environ := (environ emptyDisk)(''GITHUB_MCP_SERVER_PATH'' := ''/tmp''),
               files := (files emptyDisk)(''/ext/github-mcp-server'' \<mapsto> helperFile)\<rparr>"

text \<open>
  An Apple-silicon Mac and a Linux machine for which the release endpoint answers with a
  listing of one asset.
\<close>

definition listing :: "string \<Rightarrow> release" where
  "listing name =
     \<lparr>Assets = [\<lparr>Name = name, BrowserDownloadURL = ''https://example.com/dl/'' @ name\<rparr>],
      TagName = ''v0.1.0''\<rparr>"

definition answering :: "release \<Rightarrow> externals \<Rightarrow> externals" where
  "answering rel E =
     E\<lparr>http_Do := (\<lambda>req. Inr \<lparr>StatusCode = 200, Body = (''{}'', None)\<rparr>),
       json_Decode := (\<lambda>body. Some rel)\<rparr>"

definition macBox :: externals where
  "macBox = linuxBox\<lparr>GOOS := ''darwin'', GOARCH := ''arm64''\<rparr>"

text \<open>A listing in which the second asset is the one with the architecture in its name.\<close>

definition twoLinuxAssets :: "asset list" where
  "twoLinuxAssets =
     [\<lparr>Name = ''server-linux-x86_64.tar.gz'', BrowserDownloadURL = ''https://example.com/dl/1''\<rparr>,
      \<lparr>Name = ''Server-Linux-AMD64.tar.gz'', BrowserDownloadURL = ''https://example.com/dl/2''\<rparr>]"

text \<open>
  A release whose asset is a zip archive with the helper in it, on the Linux machine; and
  a tar archive that has a directory of the helper's name but no file of that name.
\<close>

definition helperZip :: "zip_File list" where
  "helperZip =
     [\<lparr>zipName = ''github-mcp-server-dist/'', zipOpen = Inr ([], None)\<rparr>,
      \<lparr>zipName = ''LICENSE'', zipOpen = Inr (''MIT License'', None)\<rparr>,
      \<lparr>zipName = ''bin/github-mcp-server'', zipOpen = Inr (''ELF-helper'', None)\<rparr>,
      \<lparr>zipName = ''bin/github-mcp-server.sig'', zipOpen = Inr (''signature'', None)\<rparr>]"

definition zipBox :: externals where
  "zipBox =
     (answering (listing ''server-linux-amd64.zip'') linuxBox)
       \<lparr>zip_NewReader := (\<lambda>b. Inr helperZip)\<rparr>"

definition sourceTar :: tar_Reader where
  "sourceTar =
     TarNext \<lparr>tarName = ''github-mcp-server/'', Typeflag = CHR ''5''\<rparr> ([], None)
       (TarNext \<lparr>tarName = ''README.md'', Typeflag = CHR ''0''\<rparr> (''# readme'', None) TarEOF)"

definition tarBox :: externals where
  "tarBox = linuxBox\<lparr>gzip_tar_NewReader := (\<lambda>b. Inr sourceTar)\<rparr>"

definition tarDisk :: filesystem where
  "tarDisk = (files emptyDisk)(''/tmp/github-mcp-server-42'' \<mapsto> File ''gz'' mode_0600)"

text \<open>
  The Linux machine with a helper that exits with status 2, and with a credential tool
  that fails because nobody is logged in.
\<close>

definition failingHelperBox :: externals where
  "failingHelperBox = linuxBox\<lparr>cmd_Run := (\<lambda>argv env. Exited 2)\<rparr>"

definition loggedOutBox :: externals where
  "loggedOutBox =
     (answering (listing ''server-linux-amd64.zip'') linuxBox)
       \<lparr>ghAuthToken := (\<lambda>n. ExitError ''You are not logged into any GitHub hosts.'')\<rparr>"

section \<open>Properties\<close>

subsection \<open>What \<^verbatim>\<open>os.MkdirAll\<close> leaves of the filesystem\<close>

lemma os_Mkdir_adds_dir:
  "os_Mkdir path fs = (r, fs') \<Longrightarrow> fs' q = fs q \<or> (fs q = None \<and> fs' q = Some Directory)"
  by (auto simp: os_Mkdir_def split: if_splits)

lemma os_MkdirAll_adds_dirs:
  "os_MkdirAll goos path fs = (r, fs') \<Longrightarrow>
     fs' q = fs q \<or> (fs q = None \<and> fs' q = Some Directory)"
proof (induction goos path fs arbitrary: r fs' rule: os_MkdirAll.induct)
  case (1 goos path fs)
  show ?case
  proof (cases "fs path")
    case (Some n)
    then show ?thesis using "1.prems"
      by (cases n) (auto simp: os_MkdirAll.simps [of goos path fs])
  next
    case None
    show ?thesis
    proof (cases "parentOf goos path \<noteq> []")
      case False
      then have "os_Mkdir path fs = (r, fs')"
        using "1.prems" None by (simp add: os_MkdirAll.simps [of goos path fs])
      then show ?thesis by (rule os_Mkdir_adds_dir)
    next
      case True
      obtain r1 fs1 where rec: "os_MkdirAll goos (parentOf goos path) fs = (r1, fs1)"
        by (cases "os_MkdirAll goos (parentOf goos path) fs")
      have ih: "fs1 q = fs q \<or> (fs q = None \<and> fs1 q = Some Directory)"
        using "1.IH" [OF None True rec] .
      show ?thesis
      proof (cases r1)
        case (Some e)
        then have "fs' = fs1"
          using "1.prems" None True rec by (simp add: os_MkdirAll.simps [of goos path fs])
        then show ?thesis using ih by simp
      next
        case None' : None
        then have "os_Mkdir path fs1 = (r, fs')"
          using "1.prems" None True rec by (simp add: os_MkdirAll.simps [of goos path fs])
        then have "fs' q = fs1 q \<or> (fs1 q = None \<and> fs' q = Some Directory)"
          by (rule os_Mkdir_adds_dir)
        then show ?thesis using ih by auto
      qed
    qed
  qed
qed

lemma fileExists_MkdirAll:
  "fileExists (snd (os_MkdirAll goos path fs)) q = fileExists fs q"
proof -
  obtain r fs' where eq: "os_MkdirAll goos path fs = (r, fs')"
    by (cases "os_MkdirAll goos path fs")
  from os_MkdirAll_adds_dirs [OF eq, of q] show ?thesis
    by (auto simp: eq fileExists_def)
qed

lemma os_MkdirAll_snd:
  "snd (os_MkdirAll goos path fs) q = fs q \<or>
   (fs q = None \<and> snd (os_MkdirAll goos path fs) q = Some Directory)"
  by (rule os_MkdirAll_adds_dirs [OF surjective_pairing])

lemma getExtensionDataDir_world:
  "w' = snd (getExtensionDataDir E w) \<Longrightarrow>
     w' = w\<lparr>files := files w'\<rparr> \<and>
     (\<forall>q. files w' q = files w q \<or> (files w q = None \<and> files w' q = Some Directory))"
  unfolding getExtensionDataDir_def Let_def
  using os_MkdirAll_snd
  by (auto split: if_splits sum.splits)

lemma fileExists_getExtensionDataDir:
  "fileExists (files (snd (getExtensionDataDir E w))) q = fileExists (files w) q"
  unfolding getExtensionDataDir_def Let_def
  by (simp add: fileExists_MkdirAll split: sum.splits)

subsection \<open>The Binary Locator\<close>

lemma findServerBinary_snd:
  "snd (findServerBinary E w) =
     (if snd (candidates E w ! 0) \<or> snd (candidates E w ! 1) then w
      else snd (getExtensionDataDir E w))"
  unfolding findServerBinary_def candidates_def Let_def
  by (simp split: prod.splits sum.splits)

lemma findServerBinary_find:
  "fst (findServerBinary E w) =
     (case find snd (candidates E w) of Some c \<Rightarrow> fst c | None \<Rightarrow> [])"
proof -
  obtain d w1 where g: "getExtensionDataDir E w = (d, w1)"
    by (cases "getExtensionDataDir E w")
  have fe: "\<And>q. fileExists (files w1) q = fileExists (files w) q"
    using fileExists_getExtensionDataDir [of E w] by (simp add: g)
  show ?thesis
    unfolding findServerBinary_def candidates_def Let_def
    by (simp add: g fe split: sum.splits)
qed

lemma all_less_3: "(\<forall>j<(3::nat). P j) = (P 0 \<and> P 1 \<and> P 2)"
proof -
  have "j < 3 \<longleftrightarrow> j = 0 \<or> j = 1 \<or> j = 2" for j :: nat
    by arith
  then show ?thesis by auto
qed

lemma all_less_6: "(\<forall>j<(6::nat). P j) = (P 0 \<and> P 1 \<and> P 2 \<and> P 3 \<and> P 4 \<and> P 5)"
proof -
  have "j < 6 \<longleftrightarrow> j = 0 \<or> j = 1 \<or> j = 2 \<or> j = 3 \<or> j = 4 \<or> j = 5" for j :: nat
    by arith
  then show ?thesis by auto
qed


text \<open>
  C6. For every filesystem, the Binary Locator returns the first of its six candidates, in
  priority order, that is found: when the candidate of rank \<open>k\<close> is found and none of a
  lower rank is, \<open>findServerBinary\<close> returns exactly its path; when none of the six is
  found, it returns the empty string (NotFound), and no error: its result is a plain
  string.
\<close>

theorem findServerBinary_first_found:
  "(\<forall>k<6. snd (candidates E w ! k) \<and> (\<forall>j<k. \<not> snd (candidates E w ! j))
           \<longrightarrow> fst (findServerBinary E w) = fst (candidates E w ! k)) \<and>
   ((\<forall>k<6. \<not> snd (candidates E w ! k)) \<longrightarrow> fst (findServerBinary E w) = [])"
proof -
  have len: "length (candidates E w) = 6"
    by (simp add: candidates_def Let_def)
  have hit: "fst (findServerBinary E w) = fst (candidates E w ! k)"
    if "k < 6" "snd (candidates E w ! k)" "\<forall>j<k. \<not> snd (candidates E w ! j)" for k
  proof -
    have "find snd (candidates E w) = Some (candidates E w ! k)"
      unfolding find_Some_iff using that len by auto
    then show ?thesis by (simp add: findServerBinary_find)
  qed
  have miss: "fst (findServerBinary E w) = []" if "\<forall>k<6. \<not> snd (candidates E w ! k)"
  proof -
    have "find snd (candidates E w) = None"
      unfolding find_None_iff using that len by (auto simp: in_set_conv_nth)
    then show ?thesis by (simp add: findServerBinary_find)
  qed
  show ?thesis using hit miss by blast
qed

theorem findServerBinary_first_found_witness:
  "map snd (candidates linuxBox coLocatedDisk) = [False, False, False, True, False, False] \<and>
   fst (findServerBinary linuxBox coLocatedDisk) = ''/ext/bin/github-mcp-server'' \<and>
   map snd (candidates linuxBox emptyDisk) = [False, False, False, False, False, False] \<and>
   fst (findServerBinary linuxBox emptyDisk) = []"
proof -
  have c: "map snd (candidates linuxBox coLocatedDisk) = [False, False, False, True, False, False]"
    by code_simp
  have p: "fst (candidates linuxBox coLocatedDisk ! 3) = ''/ext/bin/github-mcp-server''"
    by code_simp
  have e: "map snd (candidates linuxBox emptyDisk) = [False, False, False, False, False, False]"
    by code_simp
  have len: "length (candidates E w) = 6" for E w
    by (simp add: candidates_def Let_def)
  have c3: "snd (candidates linuxBox coLocatedDisk ! 3)"
    and c2: "\<forall>j<3. \<not> snd (candidates linuxBox coLocatedDisk ! j)"
    using c len [of linuxBox coLocatedDisk] 
    by (auto simp: all_less_3 list_eq_iff_nth_eq all_less_6)
  have e6: "\<forall>k<6. \<not> snd (candidates linuxBox emptyDisk ! k)"
    using e len [of linuxBox emptyDisk] 
    by (auto simp: list_eq_iff_nth_eq all_less_6)
  have "fst (findServerBinary linuxBox coLocatedDisk) = fst (candidates linuxBox coLocatedDisk ! 3)"
    using findServerBinary_first_found [of linuxBox coLocatedDisk, THEN conjunct1, rule_format, of 3]
          c3 c2 by simp
  moreover have "fst (findServerBinary linuxBox emptyDisk) = []"
    using findServerBinary_first_found [of linuxBox emptyDisk, THEN conjunct2] e6 by simp
  ultimately show ?thesis using c e p by simp
qed


text \<open>
  C4, as the specification states it, fails: on a machine where nothing is installed,
  \<open>findServerBinary\<close> leaves a directory that was not there, the data directory of the
  extension, which \<open>getExtensionDataDir\<close> makes on its way to the third check.
\<close>

theorem findServerBinary_no_side_effect_counterexample:
  "files emptyDisk ''/home/u/.local/share/gh-github-mcp-server'' = None \<and>
   files (snd (findServerBinary linuxBox emptyDisk)) ''/home/u/.local/share/gh-github-mcp-server''
     = Some Directory"
  by code_simp

text \<open>
  C4, amended. \<open>findServerBinary\<close> changes nothing but the filesystem, and there it only
  adds directories: the data directory of the extension and its missing parents, made by
  \<open>getExtensionDataDir\<close> once the first two checks have missed. No path that named
  something before names anything else after, and when the override path or the workspace
  candidate is found the world is left as it was.
\<close>

theorem findServerBinary_makes_only_directories:
  "snd (findServerBinary E w) =
     (if (environ w ''GITHUB_MCP_SERVER_PATH'' \<noteq> [] \<and>
          fileExists (files w) (environ w ''GITHUB_MCP_SERVER_PATH'')) \<or>
         (environ w ''GITHUB_MCP_SERVER_DIR'' \<noteq> [] \<and>
          fileExists (files w)
            (filepath_Join E [environ w ''GITHUB_MCP_SERVER_DIR'', ''bin'', binaryName E]))
      then w else snd (getExtensionDataDir E w)) \<and>
   snd (findServerBinary E w) = w\<lparr>files := files (snd (findServerBinary E w))\<rparr> \<and>
   (\<forall>q. files (snd (findServerBinary E w)) q = files w q \<or>
        (files w q = None \<and> files (snd (findServerBinary E w)) q = Some Directory))"
proof -
  have a: "snd (findServerBinary E w) =
     (if (environ w ''GITHUB_MCP_SERVER_PATH'' \<noteq> [] \<and>
          fileExists (files w) (environ w ''GITHUB_MCP_SERVER_PATH'')) \<or>
         (environ w ''GITHUB_MCP_SERVER_DIR'' \<noteq> [] \<and>
          fileExists (files w)
            (filepath_Join E [environ w ''GITHUB_MCP_SERVER_DIR'', ''bin'', binaryName E]))
      then w else snd (getExtensionDataDir E w))"
    by (simp add: findServerBinary_snd candidates_def Let_def)
  have s: "snd (findServerBinary E w) = w \<or>
           snd (findServerBinary E w) = snd (getExtensionDataDir E w)"
    by (simp add: findServerBinary_snd)
  have b: "snd (getExtensionDataDir E w) = w\<lparr>files := files (snd (getExtensionDataDir E w))\<rparr>"
    and c: "\<And>q. files (snd (getExtensionDataDir E w)) q = files w q \<or>
        (files w q = None \<and> files (snd (getExtensionDataDir E w)) q = Some Directory)"
    using getExtensionDataDir_world [OF refl, of E w] by auto
  have b': "snd (findServerBinary E w) = w\<lparr>files := files (snd (findServerBinary E w))\<rparr>"
    using s b by auto
  have c': "files (snd (findServerBinary E w)) q = files w q \<or>
        (files w q = None \<and> files (snd (findServerBinary E w)) q = Some Directory)" for q
    using s c [of q] by auto
  show ?thesis using a b' c' by blast
qed

theorem findServerBinary_makes_only_directories_witness:
  "snd (findServerBinary linuxBox overrideDisk) = overrideDisk \<and>
   files (snd (findServerBinary linuxBox coLocatedDisk)) ''/ext/bin/github-mcp-server''
     = files coLocatedDisk ''/ext/bin/github-mcp-server''"
proof -
  have h: "environ overrideDisk ''GITHUB_MCP_SERVER_PATH'' \<noteq> [] \<and>
          fileExists (files overrideDisk) (environ overrideDisk ''GITHUB_MCP_SERVER_PATH'')"
    by code_simp
  have "snd (findServerBinary linuxBox overrideDisk) = overrideDisk"
    using findServerBinary_makes_only_directories [of linuxBox overrideDisk, THEN conjunct1] h
    by simp
  moreover have "files coLocatedDisk ''/ext/bin/github-mcp-server'' \<noteq> None"
    by code_simp
  then have "files (snd (findServerBinary linuxBox coLocatedDisk)) ''/ext/bin/github-mcp-server''
               = files coLocatedDisk ''/ext/bin/github-mcp-server''"
    using findServerBinary_makes_only_directories [of linuxBox coLocatedDisk]
    by metis
  ultimately show ?thesis by simp
qed

text \<open>
  C10. When \<^verbatim>\<open>GITHUB_MCP_SERVER_PATH\<close> names a path that does not exist or is a directory,
  \<open>findServerBinary\<close> neither returns it nor fails: it returns what it returns with the
  variable unset, from the lower-priority candidates, and does the same to the filesystem.
  The override is returned when it names an entry that exists and is not a directory.
\<close>

theorem findServerBinary_override:
  "(fileExists (files w) (environ w ''GITHUB_MCP_SERVER_PATH'') \<and>
      environ w ''GITHUB_MCP_SERVER_PATH'' \<noteq> []
    \<longrightarrow> findServerBinary E w = (environ w ''GITHUB_MCP_SERVER_PATH'', w)) \<and>
   (files w (environ w ''GITHUB_MCP_SERVER_PATH'') = None \<or>
    files w (environ w ''GITHUB_MCP_SERVER_PATH'') = Some Directory
    \<longrightarrow> fst (findServerBinary E w) =
          fst (findServerBinary E (w\<lparr>environ := (environ w)(''GITHUB_MCP_SERVER_PATH'' := [])\<rparr>)) \<and>
        files (snd (findServerBinary E w)) =
          files (snd (findServerBinary E
                   (w\<lparr>environ := (environ w)(''GITHUB_MCP_SERVER_PATH'' := [])\<rparr>))))"
proof -
  let ?u = "w\<lparr>environ := (environ w)(''GITHUB_MCP_SERVER_PATH'' := [])\<rparr>"
  have hit: "findServerBinary E w = (environ w ''GITHUB_MCP_SERVER_PATH'', w)"
    if "fileExists (files w) (environ w ''GITHUB_MCP_SERVER_PATH'')"
       "environ w ''GITHUB_MCP_SERVER_PATH'' \<noteq> []"
    using that by (simp add: findServerBinary_def)
  have miss: "fst (findServerBinary E w) = fst (findServerBinary E ?u) \<and>
              files (snd (findServerBinary E w)) = files (snd (findServerBinary E ?u))"
    if "\<not> fileExists (files w) (environ w ''GITHUB_MCP_SERVER_PATH'')"
  proof -
    have g: "getExtensionDataDir E ?u =
               (fst (getExtensionDataDir E w),
                (snd (getExtensionDataDir E w))\<lparr>environ := environ ?u\<rparr>)"
      by (simp add: getExtensionDataDir_def Let_def split: sum.splits)
    have cu: "candidates E ?u = ([], False) # tl (candidates E w)"
      by (simp add: candidates_def Let_def g)
    have cw: "candidates E w = (environ w ''GITHUB_MCP_SERVER_PATH'', False) # tl (candidates E w)"
      using that by (simp add: candidates_def Let_def)
    have "find snd (candidates E w) = find snd (tl (candidates E w))"
      by (subst cw) simp
    also have "\<dots> = find snd (candidates E ?u)"
      by (subst cu) simp
    finally have p: "fst (findServerBinary E w) = fst (findServerBinary E ?u)"
      by (simp add: findServerBinary_find)
    have "snd (candidates E w ! 0) = snd (candidates E ?u ! 0)"
      by (subst cw, subst cu) simp
    moreover have "snd (candidates E w ! 1) = snd (candidates E ?u ! 1)"
      by (subst cw, subst cu) simp
    ultimately have "files (snd (findServerBinary E w)) = files (snd (findServerBinary E ?u))"
      by (simp add: findServerBinary_snd g)
    with p show ?thesis by simp
  qed
  have "\<not> fileExists (files w) p" if "files w p = None \<or> files w p = Some Directory" for p
    using that by (auto simp: fileExists_def)
  then show ?thesis using hit miss by blast
qed

theorem findServerBinary_override_witness:
  "files staleOverrideDisk (environ staleOverrideDisk ''GITHUB_MCP_SERVER_PATH'') = Some Directory \<and>
   fst (findServerBinary linuxBox staleOverrideDisk) = ''/ext/github-mcp-server'' \<and>
   fileExists (files overrideDisk) (environ overrideDisk ''GITHUB_MCP_SERVER_PATH'') \<and>
   fst (findServerBinary linuxBox overrideDisk) = ''/opt/mcp/server''"
proof -
  have d: "files staleOverrideDisk (environ staleOverrideDisk ''GITHUB_MCP_SERVER_PATH'')
             = Some Directory"
    by code_simp
  have r: "fst (findServerBinary linuxBox
             (staleOverrideDisk\<lparr>environ :=
                (environ staleOverrideDisk)(''GITHUB_MCP_SERVER_PATH'' := [])\<rparr>))
           = ''/ext/github-mcp-server''"
    by code_simp
  have f: "fileExists (files overrideDisk) (environ overrideDisk ''GITHUB_MCP_SERVER_PATH'')"
    and n: "environ overrideDisk ''GITHUB_MCP_SERVER_PATH'' = ''/opt/mcp/server''"
    by code_simp+
  have "fst (findServerBinary linuxBox staleOverrideDisk) = ''/ext/github-mcp-server''"
    using findServerBinary_override [of staleOverrideDisk linuxBox, THEN conjunct2] d r by simp
  moreover have "fst (findServerBinary linuxBox overrideDisk) = ''/opt/mcp/server''"
    using findServerBinary_override [of overrideDisk linuxBox, THEN conjunct1] f n by simp
  ultimately show ?thesis using d f by simp
qed

subsection \<open>The Release Resolver\<close>

lemma find_SomeD: "find P xs = Some a \<Longrightarrow> a \<in> set xs \<and> P a"
  by (auto simp: find_Some_iff)

lemma findMacVariant_Some:
  "findMacVariant E vs assets = Some a \<Longrightarrow>
     a \<in> set assets \<and> (\<exists>v\<in>set vs. matchMacVariant E v a)"
  by (induction vs) (auto split: option.splits dest: find_SomeD)

lemma findMacVariant_None:
  "findMacVariant E vs assets = None \<Longrightarrow>
     \<forall>v\<in>set vs. \<forall>a\<in>set assets. \<not> matchMacVariant E v a"
  by (induction vs) (auto split: option.splits simp: find_None_iff)

lemma ToLower_mac: "ToLower ''mac'' = ''mac''" "ToLower ''macos'' = ''macos''"
  "ToLower ''osx'' = ''osx''" "ToLower ''x86_64'' = ''x86_64''" "ToLower ''amd64'' = ''amd64''"
  "ToLower ''.sha'' = ''.sha''" "ToLower ''.md5'' = ''.md5''" "ToLower ''src'' = ''src''"
  "ToLower ''source'' = ''source''"
  by code_simp+

lemma matchStandard_rule: "matchStandard E a = rule_OS_arch E (Name a)"
  by (simp add: matchStandard_def rule_OS_arch_def containsFold_def Let_def)

lemma matchMacVariant_rule:
  "ToLower (GOARCH E) = GOARCH E \<Longrightarrow> GOOS E = ''darwin'' \<Longrightarrow>
   (\<exists>v\<in>set macVariants. matchMacVariant E v a) = rule_macOS_alternatives E (Name a)"
  by (auto simp: matchMacVariant_def rule_macOS_alternatives_def containsFold_def Let_def
                 macVariants_def ToLower_mac)

lemma matchArchAlternative_rule:
  "GOARCH E = ''amd64'' \<Longrightarrow> matchArchAlternative E a = rule_OS_x86_64 E (Name a)"
  by (simp add: matchArchAlternative_def rule_OS_x86_64_def containsFold_def Let_def ToLower_mac)

lemma matchAnyForOS_rule: "matchAnyForOS E a = rule_OS_only E (Name a)"
  by (simp add: matchAnyForOS_def rule_OS_only_def containsFold_def Let_def ToLower_mac)

lemma stderr_Fprintf: "last (stderr (Fprintf_Stderr m w)) = m"
  by (simp add: Fprintf_Stderr_def)


lemma selectAsset_stage1:
  "find (matchStandard E) assets = Some a \<Longrightarrow>
     fst (selectAsset E assets w) = Inr (BrowserDownloadURL a) \<and>
     last (stderr (snd (selectAsset E assets w))) = FoundMatchingAsset (Name a)"
  by (simp add: selectAsset_def Let_def stderr_Fprintf)

lemma selectAsset_stage2:
  "find (matchStandard E) assets = None \<Longrightarrow> GOOS E = ''darwin'' \<Longrightarrow>
   findMacVariant E macVariants assets = Some a \<Longrightarrow>
     fst (selectAsset E assets w) = Inr (BrowserDownloadURL a) \<and>
     last (stderr (snd (selectAsset E assets w))) =
       FoundMatchingAssetWithMacOSAlternative (Name a)"
  by (simp add: selectAsset_def Let_def stderr_Fprintf)

lemma selectAsset_stage3:
  "find (matchStandard E) assets = None \<Longrightarrow>
   GOOS E = ''darwin'' \<longrightarrow> findMacVariant E macVariants assets = None \<Longrightarrow>
   GOARCH E = ''amd64'' \<Longrightarrow>
   find (matchArchAlternative E) assets = Some a \<Longrightarrow>
     fst (selectAsset E assets w) = Inr (BrowserDownloadURL a) \<and>
     last (stderr (snd (selectAsset E assets w))) =
       FoundMatchingAssetWithArchitectureAlternative (Name a)"
  by (simp add: selectAsset_def Let_def stderr_Fprintf)

lemma selectAsset_stage4:
  "find (matchStandard E) assets = None \<Longrightarrow>
   GOOS E = ''darwin'' \<longrightarrow> findMacVariant E macVariants assets = None \<Longrightarrow>
   GOARCH E = ''amd64'' \<longrightarrow> find (matchArchAlternative E) assets = None \<Longrightarrow>
   find (matchAnyForOS E) assets = Some a \<Longrightarrow>
     fst (selectAsset E assets w) = Inr (BrowserDownloadURL a) \<and>
     last (stderr (snd (selectAsset E assets w))) = FoundOSMatchingAsset (Name a)"
  by (simp add: selectAsset_def Let_def stderr_Fprintf)

lemma selectAsset_stage5:
  "find (matchStandard E) assets = None \<Longrightarrow>
   GOOS E = ''darwin'' \<longrightarrow> findMacVariant E macVariants assets = None \<Longrightarrow>
   GOARCH E = ''amd64'' \<longrightarrow> find (matchArchAlternative E) assets = None \<Longrightarrow>
   find (matchAnyForOS E) assets = None \<Longrightarrow>
     fst (selectAsset E assets w) =
       Inl (if GOOS E = ''darwin'' \<and> GOARCH E = ''amd64''
            then NoSuitableBinaryBuildFromSource (GOOS E) (GOARCH E)
            else NoSuitableBinary (GOOS E) (GOARCH E))"
  by (simp add: selectAsset_def Let_def)


lemma ToLower_names:
  "ToLower ''server-macos.zip'' = ''server-macos.zip''"
  "ToLower ''server-macos-arm64.zip'' = ''server-macos-arm64.zip''"
  "ToLower ''darwin'' = ''darwin''" "ToLower ''arm64'' = ''arm64''"
  by code_simp+

lemma getLatestReleaseAssetURL_selectAsset:
  assumes "\<forall>req. URL req = releaseAPIURL \<longrightarrow> http_Do E req = Inr resp"
    and "StatusCode resp = 200" and "json_Decode E (Body resp) = Some rel"
  shows "\<exists>w'. getLatestReleaseAssetURL E w = selectAsset E (Assets rel) w'"
  using assms
  by (auto simp: getLatestReleaseAssetURL_def Let_def split: prod.splits)

text \<open>
  C5. The Release Resolver tries its rules in the order OS+arch, macOS alternatives,
  OS+x86_64, OS only, on the names of the assets without regard to case, and stops at the
  first rule that an asset satisfies: the URL it returns is that of an asset satisfying a
  rule \<open>k\<close> of the sequence, no asset satisfies a rule before \<open>k\<close>, and the line it prints
  names the rule \<open>k\<close>; it returns an error only when no asset satisfies any rule. The
  architecture identifier is in lower case, as every \<^verbatim>\<open>runtime.GOARCH\<close> is. On
  linux/amd64, \<^verbatim>\<open>server-linux-amd64.tar.gz\<close> is chosen by the first rule.
\<close>

theorem selectAsset_fallback_order:
  assumes lower: "ToLower (GOARCH E) = GOARCH E"
  shows "(\<forall>url. fst (selectAsset E assets w) = Inr url \<longrightarrow>
            (\<exists>k<4. \<exists>a\<in>set assets.
               url = BrowserDownloadURL a \<and>
               (fallbackSequence E ! k) (Name a) \<and>
               (\<forall>j<k. \<forall>b\<in>set assets. \<not> (fallbackSequence E ! j) (Name b)) \<and>
               last (stderr (snd (selectAsset E assets w))) = foundBy k (Name a))) \<and>
         (\<forall>err. fst (selectAsset E assets w) = Inl err \<longrightarrow>
            (\<forall>k<4. \<forall>b\<in>set assets. \<not> (fallbackSequence E ! k) (Name b)))"
proof -
  let ?R = "fallbackSequence E"
  let ?S = "\<lambda>k a. a \<in> set assets \<and> (?R ! k) (Name a) \<and>
                   fst (selectAsset E assets w) = Inr (BrowserDownloadURL a) \<and>
                   last (stderr (snd (selectAsset E assets w))) = foundBy k (Name a)"
  let ?N = "\<lambda>k. \<forall>b\<in>set assets. \<not> (?R ! k) (Name b)"
  have R: "?R ! 0 = rule_OS_arch E" "?R ! 1 = rule_macOS_alternatives E"
          "?R ! 2 = rule_OS_x86_64 E" "?R ! 3 = rule_OS_only E"
          "?R ! Suc 0 = rule_macOS_alternatives E"
    by (simp_all add: fallbackSequence_def)
  have F: "foundBy 0 n = FoundMatchingAsset n"
          "foundBy 1 n = FoundMatchingAssetWithMacOSAlternative n"
          "foundBy 2 n = FoundMatchingAssetWithArchitectureAlternative n"
          "foundBy 3 n = FoundOSMatchingAsset n"
          "foundBy (Suc 0) n = FoundMatchingAssetWithMacOSAlternative n" for n
    by (simp_all add: foundBy_def)
  have goalA: "?thesis" if "k < 4" "?S k a" "\<forall>j<k. ?N j" for k a
  proof (intro conjI allI impI)
    fix url assume "fst (selectAsset E assets w) = Inr url"
    then have "url = BrowserDownloadURL a" using that(2) by simp
    then show "\<exists>k<4. \<exists>a\<in>set assets.
               url = BrowserDownloadURL a \<and> (?R ! k) (Name a) \<and>
               (\<forall>j<k. \<forall>b\<in>set assets. \<not> (?R ! j) (Name b)) \<and>
               last (stderr (snd (selectAsset E assets w))) = foundBy k (Name a)"
      using that by blast
  next
    fix err k' assume "fst (selectAsset E assets w) = Inl err"
    then have False using that(2) by simp
    then show "?N k'" ..
  qed
  have goalB: "?thesis" if "fst (selectAsset E assets w) = Inl err" "\<forall>k<4. ?N k" for err
    using that by simp
  have lt1: "(\<forall>j<(1::nat). P j) = P 0" for P by simp
  have lt2: "(\<forall>j<(2::nat). P j) = (P 0 \<and> P 1)" for P
  proof -
    have "j < 2 \<longleftrightarrow> j = 0 \<or> j = 1" for j :: nat by arith
    then show ?thesis by auto
  qed
  have lt4: "(\<forall>j<(4::nat). P j) = (P 0 \<and> P 1 \<and> P 2 \<and> P 3)" for P
  proof -
    have "j < 4 \<longleftrightarrow> j = 0 \<or> j = 1 \<or> j = 2 \<or> j = 3" for j :: nat by arith
    then show ?thesis by auto
  qed
  show ?thesis
  proof (cases "find (matchStandard E) assets")
    case (Some a)
    have "?S 0 a"
      using selectAsset_stage1 [OF Some, of w] find_SomeD [OF Some]
      by (simp add: R F matchStandard_rule)
    then show ?thesis by (intro goalA [of 0 a]) simp_all
  next
    case s1: None
    then have N0: "?N 0"
      by (simp add: find_None_iff R matchStandard_rule)
    let ?s2 = "if GOOS E = ''darwin'' then findMacVariant E macVariants assets else None"
    show ?thesis
    proof (cases ?s2)
      case (Some a)
      then have d: "GOOS E = ''darwin''" and m: "findMacVariant E macVariants assets = Some a"
        by (auto split: if_splits)
      have "?S 1 a"
        using selectAsset_stage2 [OF s1 d m, of w] findMacVariant_Some [OF m]
              matchMacVariant_rule [OF lower d, of a]
        by (simp add: R F)
      then show ?thesis using N0
        by (intro goalA [of 1 a]) (simp_all add: lt1)
    next
      case s2: None
      then have s2': "GOOS E = ''darwin'' \<longrightarrow> findMacVariant E macVariants assets = None"
        by (auto split: if_splits)
      have N1: "?N 1"
      proof (cases "GOOS E = ''darwin''")
        case True
        have none: "\<forall>v\<in>set macVariants. \<forall>a\<in>set assets. \<not> matchMacVariant E v a"
          using findMacVariant_None [of E macVariants assets] s2' True by simp
        have "\<not> rule_macOS_alternatives E (Name b)" if "b \<in> set assets" for b
          using none that matchMacVariant_rule [OF lower True, of b] by blast
        then show ?thesis by (simp add: R)
      next
        case False
        then show ?thesis by (simp add: R rule_macOS_alternatives_def)
      qed
      let ?s3 = "if GOARCH E = ''amd64'' then find (matchArchAlternative E) assets else None"
      show ?thesis
      proof (cases ?s3)
        case (Some a)
        then have x: "GOARCH E = ''amd64''" and m: "find (matchArchAlternative E) assets = Some a"
          by (auto split: if_splits)
        have "?S 2 a"
          using selectAsset_stage3 [OF s1 s2' x m, of w] find_SomeD [OF m]
          by (simp add: R F matchArchAlternative_rule [OF x])
        then show ?thesis using N0 N1
          by (intro goalA [of 2 a]) (simp_all add: lt2)
      next
        case s3: None
        then have s3': "GOARCH E = ''amd64'' \<longrightarrow> find (matchArchAlternative E) assets = None"
          by (auto split: if_splits)
        have N2: "?N 2"
        proof (cases "GOARCH E = ''amd64''")
          case True
          then show ?thesis
            using s3' by (simp add: find_None_iff R matchArchAlternative_rule [OF True])
        next
          case False
          then show ?thesis by (simp add: R rule_OS_x86_64_def)
        qed
        show ?thesis
        proof (cases "find (matchAnyForOS E) assets")
          case (Some a)
          have "?S 3 a"
            using selectAsset_stage4 [OF s1 s2' s3' Some, of w] find_SomeD [OF Some]
            by (simp add: R F matchAnyForOS_rule)
          then show ?thesis using N0 N1 N2
            by (intro goalA [of 3 a]) (simp_all add: all_less_3)
        next
          case s4: None
          then have N3: "?N 3"
            by (simp add: find_None_iff R matchAnyForOS_rule)
          show ?thesis using N0 N1 N2 N3
            by (intro goalB [OF selectAsset_stage5 [OF s1 s2' s3' s4, of w]]) (simp add: lt4)
        qed
      qed
    qed
  qed
qed

theorem selectAsset_fallback_order_witness:
  "ToLower (GOARCH linuxBox) = GOARCH linuxBox \<and>
   fst (selectAsset linuxBox twoLinuxAssets emptyDisk) = Inr ''https://example.com/dl/2'' \<and>
   (fallbackSequence linuxBox ! 0) ''Server-Linux-AMD64.tar.gz'' \<and>
   \<not> (fallbackSequence linuxBox ! 0) ''server-linux-x86_64.tar.gz'' \<and>
   (fallbackSequence linuxBox ! 2) ''server-linux-x86_64.tar.gz'' \<and>
   last (stderr (snd (selectAsset linuxBox twoLinuxAssets emptyDisk)))
     = foundBy 0 ''Server-Linux-AMD64.tar.gz'' \<and>
   fst (getLatestReleaseAssetURL (answering (listing ''server-linux-amd64.tar.gz'') linuxBox)
          emptyDisk)
     = Inr ''https://example.com/dl/server-linux-amd64.tar.gz'' \<and>
   last (stderr (snd (getLatestReleaseAssetURL
                        (answering (listing ''server-linux-amd64.tar.gz'') linuxBox) emptyDisk)))
     = FoundMatchingAsset ''server-linux-amd64.tar.gz''"
proof -
  have h: "ToLower (GOARCH linuxBox) = GOARCH linuxBox"
    by code_simp
  have r: "fst (selectAsset linuxBox twoLinuxAssets emptyDisk) = Inr ''https://example.com/dl/2''"
    by code_simp
  have m: "(fallbackSequence linuxBox ! 0) ''Server-Linux-AMD64.tar.gz''"
          "\<not> (fallbackSequence linuxBox ! 0) ''server-linux-x86_64.tar.gz''"
          "(fallbackSequence linuxBox ! 2) ''server-linux-x86_64.tar.gz''"
    by code_simp+
  have l: "last (stderr (snd (selectAsset linuxBox twoLinuxAssets emptyDisk)))
             = foundBy 0 ''Server-Linux-AMD64.tar.gz''"
    by code_simp
  have g: "fst (getLatestReleaseAssetURL (answering (listing ''server-linux-amd64.tar.gz'') linuxBox)
                  emptyDisk)
             = Inr ''https://example.com/dl/server-linux-amd64.tar.gz''"
    by code_simp
  have gl: "last (stderr (snd (getLatestReleaseAssetURL
                        (answering (listing ''server-linux-amd64.tar.gz'') linuxBox) emptyDisk)))
     = FoundMatchingAsset ''server-linux-amd64.tar.gz''"
    by code_simp
  show ?thesis
    using selectAsset_fallback_order [OF h, of twoLinuxAssets emptyDisk] h r m l g gl
    by simp
qed

text \<open>
  C3, as the specification states it, fails: on darwin/arm64, with
  \<^verbatim>\<open>server-macos.zip\<close> the only asset of the release, the resolver returns an error, not
  the URL of the asset.
\<close>

theorem getLatestReleaseAssetURL_macos_zip_counterexample:
  "fst (getLatestReleaseAssetURL (answering (listing ''server-macos.zip'') macBox) emptyDisk)
     = Inl (NoSuitableBinary ''darwin'' ''arm64'')"
  by code_simp


text \<open>
  C3, amended. On darwin/arm64, when the release lists \<^verbatim>\<open>server-macos.zip\<close> and nothing
  else, no rule selects the asset and the resolver returns the error "no suitable binary
  found for darwin/arm64": the macOS-alternative rule asks for \<^verbatim>\<open>arm64\<close>,
  \<^verbatim>\<open>x86_64\<close> or \<^verbatim>\<open>amd64\<close> in the name, beside \<^verbatim>\<open>mac\<close>, \<^verbatim>\<open>macos\<close> or
  \<^verbatim>\<open>osx\<close>. An only asset named \<^verbatim>\<open>server-macos-arm64.zip\<close> is selected by that rule,
  and its URL returned.
\<close>

theorem macOS_alternative_needs_architecture:
  assumes os: "GOOS E = ''darwin''" and arch: "GOARCH E = ''arm64''"
    and resp: "\<forall>req. URL req = releaseAPIURL \<longrightarrow> http_Do E req = Inr resp"
              "StatusCode resp = 200" "json_Decode E (Body resp) = Some rel"
    and only: "Assets rel = [a]" "Name a = ''server-macos.zip''"
  shows "fst (getLatestReleaseAssetURL E w) = Inl (NoSuitableBinary ''darwin'' ''arm64'') \<and>
         fst (selectAsset E [\<lparr>Name = ''server-macos-arm64.zip'', BrowserDownloadURL = u\<rparr>] v)
           = Inr u \<and>
         last (stderr (snd (selectAsset E
                 [\<lparr>Name = ''server-macos-arm64.zip'', BrowserDownloadURL = u\<rparr>] v)))
           = FoundMatchingAssetWithMacOSAlternative ''server-macos-arm64.zip''"
proof -
  obtain w' where g: "getLatestReleaseAssetURL E w = selectAsset E [a] w'"
    using getLatestReleaseAssetURL_selectAsset [OF resp, of w] only by auto
  have s1: "find (matchStandard E) [a] = None"
    by (simp add: matchStandard_def os arch only ToLower_names)
  have s2: "findMacVariant E macVariants [a] = None"
    by (simp add: macVariants_def matchMacVariant_def os arch only ToLower_names)
  have s4: "find (matchAnyForOS E) [a] = None"
    by (simp add: matchAnyForOS_def os arch only ToLower_names)
  have "fst (selectAsset E [a] w') = Inl (NoSuitableBinary ''darwin'' ''arm64'')"
    using selectAsset_stage5 [of E "[a]" w'] s1 s2 s4 by (simp add: os arch)
  then have A: "fst (getLatestReleaseAssetURL E w) = Inl (NoSuitableBinary ''darwin'' ''arm64'')"
    by (simp add: g)
  let ?b = "\<lparr>Name = ''server-macos-arm64.zip'', BrowserDownloadURL = u\<rparr>"
  have t1: "find (matchStandard E) [?b] = None"
    by (simp add: matchStandard_def os arch ToLower_names)
  have t2: "findMacVariant E macVariants [?b] = Some ?b"
    by (simp add: macVariants_def matchMacVariant_def os arch ToLower_names)
  show ?thesis
    using selectAsset_stage2 [OF t1 os t2, of v] A by simp
qed

theorem macOS_alternative_needs_architecture_witness:
  "GOOS macBox = ''darwin'' \<and> GOARCH macBox = ''arm64'' \<and>
   map Name (Assets (listing ''server-macos.zip'')) = [''server-macos.zip''] \<and>
   stderr (snd (getLatestReleaseAssetURL (answering (listing ''server-macos.zip'') macBox)
                  overrideDisk))
     = [RequestingLatestReleaseInfoFrom releaseAPIURL, FoundReleaseWithAssets 1,
        AssetLine ''server-macos.zip'', LookingForPattern ''github-mcp-server.*darwin.*arm64'',
        TryingMacOSAlternatives, LookingForAnyBinaryFor ''darwin''] \<and>
   fst (getLatestReleaseAssetURL (answering (listing ''server-macos.zip'') macBox) overrideDisk)
     = Inl (NoSuitableBinary ''darwin'' ''arm64'') \<and>
   fst (selectAsset (answering (listing ''server-macos.zip'') macBox)
          [\<lparr>Name = ''server-macos-arm64.zip'', BrowserDownloadURL = ''https://example.com/a''\<rparr>]
          emptyDisk)
     = Inr ''https://example.com/a''"
proof -
  let ?E = "answering (listing ''server-macos.zip'') macBox"
  let ?a = "\<lparr>Name = ''server-macos.zip'',
              BrowserDownloadURL = ''https://example.com/dl/server-macos.zip''\<rparr>"
  let ?resp = "\<lparr>StatusCode = 200, Body = (''{}'', None)\<rparr>"
  have os: "GOOS ?E = ''darwin''" and arch: "GOARCH ?E = ''arm64''"
    by (simp_all add: answering_def macBox_def linuxBox_def)
  have r1: "\<forall>req. URL req = releaseAPIURL \<longrightarrow> http_Do ?E req = Inr ?resp"
    by (simp add: answering_def)
  have r2: "StatusCode ?resp = 200" by simp
  have r3: "json_Decode ?E (Body ?resp) = Some (listing ''server-macos.zip'')"
    by (simp add: answering_def)
  have o1: "Assets (listing ''server-macos.zip'') = [?a]" by (simp add: listing_def)
  have o2: "Name ?a = ''server-macos.zip''" by simp
  have log: "stderr (snd (getLatestReleaseAssetURL ?E overrideDisk))
     = [RequestingLatestReleaseInfoFrom releaseAPIURL, FoundReleaseWithAssets 1,
        AssetLine ''server-macos.zip'', LookingForPattern ''github-mcp-server.*darwin.*arm64'',
        TryingMacOSAlternatives, LookingForAnyBinaryFor ''darwin'']"
    by code_simp
  show ?thesis
    using macOS_alternative_needs_architecture [OF os arch r1 r2 r3 o1 o2,
            of overrideDisk "''https://example.com/a''" emptyDisk] log o1
    by (simp add: macBox_def linuxBox_def)
qed

subsection \<open>The Extractor\<close>

lemma extractFromTar_no_match:
  "\<forall>h\<in>set (tarHeaders tr).
      \<not> (Contains (tarName h) ''github-mcp-server'' \<and> Typeflag h = tar_TypeReg) \<Longrightarrow>
   extractFromTar E targetPath tr fs =
     (Some (case tarEnd tr of None \<Rightarrow> BinaryNotFoundInTarGz | Some err \<Rightarrow> err), fs)"
  by (induction tr) auto

text \<open>
  C7. When the tar reader of a downloaded \<^verbatim>\<open>.tar.gz\<close> archive delivers no header of a
  regular file whose name contains \<^verbatim>\<open>github-mcp-server\<close>, \<open>extractFromTarGz\<close> returns
  an error and the filesystem it was given, unchanged: the target path is neither created
  nor written. The error is "binary not found in tar.gz" when the archive is read to its
  end, and the error of the reader when the reading breaks off before.
\<close>

theorem extractFromTarGz_no_match:
  assumes "fs tarPath = Some (File c m)"
    and "gzip_tar_NewReader E c = Inr tr"
    and "\<forall>h\<in>set (tarHeaders tr).
           \<not> (Contains (tarName h) ''github-mcp-server'' \<and> Typeflag h = tar_TypeReg)"
  shows "extractFromTarGz E tarPath targetPath fs =
           (Some (case tarEnd tr of None \<Rightarrow> BinaryNotFoundInTarGz | Some err \<Rightarrow> err), fs)"
  using assms by (simp add: extractFromTarGz_def extractFromTar_no_match)

theorem extractFromTarGz_no_match_witness:
  "tarDisk ''/tmp/github-mcp-server-42'' = Some (File ''gz'' mode_0600) \<and>
   gzip_tar_NewReader tarBox ''gz'' = Inr sourceTar \<and>
   map tarName (tarHeaders sourceTar) = [''github-mcp-server/'', ''README.md''] \<and>
   map Typeflag (tarHeaders sourceTar) = [CHR ''5'', tar_TypeReg] \<and>
   tarEnd sourceTar = None \<and>
   extractFromTarGz tarBox ''/tmp/github-mcp-server-42'' ''/opt/bin/github-mcp-server'' tarDisk
     = (Some BinaryNotFoundInTarGz, tarDisk)"
proof -
  have a: "tarDisk ''/tmp/github-mcp-server-42'' = Some (File ''gz'' mode_0600)"
    by (simp add: tarDisk_def)
  have b: "gzip_tar_NewReader tarBox ''gz'' = Inr sourceTar"
    by (simp add: tarBox_def)
  have c: "\<forall>h\<in>set (tarHeaders sourceTar).
             \<not> (Contains (tarName h) ''github-mcp-server'' \<and> Typeflag h = tar_TypeReg)"
    by (simp add: sourceTar_def tar_TypeReg_def)
  have d: "tarEnd sourceTar = None"
          "map tarName (tarHeaders sourceTar) = [''github-mcp-server/'', ''README.md'']"
          "map Typeflag (tarHeaders sourceTar) = [CHR ''5'', tar_TypeReg]"
    by (simp_all add: sourceTar_def tar_TypeReg_def)
  show ?thesis
    using extractFromTarGz_no_match
            [where fs = tarDisk and E = tarBox and tr = sourceTar
               and targetPath = "''/opt/bin/github-mcp-server''", OF a b c] a b d
    by simp
qed


lemma os_Create_ok:
  "os_Create goos newMode name fs = Inr fs1 \<Longrightarrow> \<exists>m. fs1 = fs(name \<mapsto> File [] m)"
  by (auto simp: os_Create_def split: option.splits node.splits if_splits)

lemma extractFromZip_ok:
  assumes "fs zipPath = Some (File archive m)"
    and "zip_NewReader E archive = Inr entries"
    and "find (\<lambda>file. Contains (zipName file) ''github-mcp-server'' \<and>
                       \<not> HasSuffix (zipName file) ''/'') entries = Some entry"
    and "zipOpen entry = Inr (content, None)"
    and "os_Create (GOOS E) (newFileMode E) targetPath fs = Inr fs1"
  shows "\<exists>m'. extractFromZip E zipPath targetPath fs =
                 (None, fs(targetPath \<mapsto> File content m'))"
proof -
  obtain m' where c: "fs1 = fs(targetPath \<mapsto> File [] m')"
    using os_Create_ok [OF assms(5)] by blast
  show ?thesis
    using assms c
    by (intro exI [of _ m']) (simp add: extractFromZip_def zip_OpenReader_def io_Copy_def)
qed

lemma os_MkdirAll_ok:
  "os_MkdirAll goos path fs = (None, fs') \<Longrightarrow> fs' path = Some Directory"
  by (subst (asm) os_MkdirAll.simps)
     (auto simp: os_Mkdir_def split: option.splits node.splits if_splits prod.splits)

lemma os_Create_succeeds:
  "fs name \<noteq> Some Directory \<Longrightarrow> name \<noteq> [] \<Longrightarrow> parentExists goos name fs \<Longrightarrow>
     \<exists>fs1. os_Create goos newMode name fs = Inr fs1"
  by (auto simp: os_Create_def split: option.splits node.splits)

text \<open>
  C9. Round trip through a zip archive. When the asset of the release is a \<^verbatim>\<open>.zip\<close>
  whose first entry with \<^verbatim>\<open>github-mcp-server\<close> in its name and no \<^verbatim>\<open>/\<close> at its end
  reads as \<open>content\<close>, and the download and the creation of the files succeed,
  \<open>downloadServerBinary\<close> returns the target path and leaves there a file whose bytes are
  \<open>content\<close> and whose permission bits are \<^verbatim>\<open>0755\<close>: read, write and execute for the
  owner, read and execute for the group and for the others.
\<close>

theorem downloadServerBinary_zip_roundtrip:
  assumes url: "getLatestReleaseAssetURL E w = (Inr assetURL, w1)"
    and zip: "HasSuffix assetURL ''.zip''"
    and dir: "getExtensionDataDir E w1 = (dataDir, w2)"
             "binDir = filepath_Join E [dataDir, ''bin'']"
             "os_MkdirAll (GOOS E) binDir (files w2) = (None, fs3)"
    and get: "http_Do E \<lparr>URL = assetURL, Header = []\<rparr> = Inr resp"
             "StatusCode resp = 200" "Body resp = (archive, None)"
    and tmp: "os_CreateTemp E ''github-mcp-server-*'' = Inr tmpName"
             "tmpName \<noteq> targetPath" "tmpName \<noteq> binDir"
    and target: "targetPath = filepath_Join E [binDir, binaryName E]"
                "targetPath \<noteq> []" "parentOf (GOOS E) targetPath = binDir"
                "fs3 targetPath \<noteq> Some Directory"
    and entry: "zip_NewReader E archive = Inr entries"
               "find (\<lambda>file. Contains (zipName file) ''github-mcp-server'' \<and>
                              \<not> HasSuffix (zipName file) ''/'') entries = Some entry"
               "zipOpen entry = Inr (content, None)"
  shows "fst (downloadServerBinary E w) = Inr targetPath \<and>
         files (snd (downloadServerBinary E w)) targetPath = Some (File content mode_0755) \<and>
         mode_0755 div 64 mod 8 = 7 \<and> mode_0755 div 8 mod 8 = 5 \<and> mode_0755 mod 8 = 5"
proof -
  let ?fs5 = "fs3(tmpName \<mapsto> File archive mode_0600)"
  have copy: "io_Copy tmpName (archive, None) (fs3(tmpName \<mapsto> File [] mode_0600)) = (None, ?fs5)"
    by (simp add: io_Copy_def)
  have "fs3 binDir = Some Directory"
    using os_MkdirAll_ok [OF dir(3)] .
  then have "parentExists (GOOS E) targetPath ?fs5"
    using tmp(3) target(3) by (simp add: parentExists_def)
  moreover have "?fs5 targetPath \<noteq> Some Directory"
    using target(4) tmp(2) by simp
  ultimately obtain fs6 where
    create: "os_Create (GOOS E) (newFileMode E) targetPath ?fs5 = Inr fs6"
    using os_Create_succeeds [of ?fs5 targetPath "GOOS E" "newFileMode E"] target(2) by blast
  obtain m' where x: "extractFromZip E tmpName targetPath ?fs5 =
                        (None, ?fs5(targetPath \<mapsto> File content m'))"
    using extractFromZip_ok [of ?fs5 tmpName archive mode_0600 E entries entry content
                                targetPath fs6] entry create
    by auto
  have ch: "os_Chmod targetPath mode_0755 (?fs5(targetPath \<mapsto> File content m')) =
              Inr (?fs5(targetPath \<mapsto> File content mode_0755))"
    by (simp add: os_Chmod_def)
  have "downloadServerBinary E w =
          (Inr targetPath,
           (Fprintf_Stderr (DownloadingFrom assetURL) (w2\<lparr>files := fs3\<rparr>))
             \<lparr>requests := requests (Fprintf_Stderr (DownloadingFrom assetURL) (w2\<lparr>files := fs3\<rparr>))
                            @ [\<lparr>URL = assetURL, Header = []\<rparr>],
              files := os_Remove tmpName (?fs5(targetPath \<mapsto> File content mode_0755))\<rparr>)"
    unfolding downloadServerBinary_def
    by (simp add: url zip dir(1) dir(2) [symmetric] dir(3) get tmp(1) target(1) [symmetric]
                  Let_def Fprintf_Stderr_def copy x ch)
  then show ?thesis
    using tmp(2) by (simp add: os_Remove_def mode_0755_def)
qed

theorem downloadServerBinary_zip_roundtrip_witness:
  "fst (getLatestReleaseAssetURL zipBox emptyDisk)
     = Inr ''https://example.com/dl/server-linux-amd64.zip'' \<and>
   zip_NewReader zipBox ''{}'' = Inr helperZip \<and>
   map zipName helperZip =
     [''github-mcp-server-dist/'', ''LICENSE'', ''bin/github-mcp-server'',
      ''bin/github-mcp-server.sig''] \<and>
   zipOpen (helperZip ! 2) = Inr (''ELF-helper'', None) \<and>
   files emptyDisk ''/home/u/.local/share/gh-github-mcp-server/bin/github-mcp-server'' = None \<and>
   fst (downloadServerBinary zipBox emptyDisk)
     = Inr ''/home/u/.local/share/gh-github-mcp-server/bin/github-mcp-server'' \<and>
   files (snd (downloadServerBinary zipBox emptyDisk))
       ''/home/u/.local/share/gh-github-mcp-server/bin/github-mcp-server''
     = Some (File ''ELF-helper'' mode_0755)"
proof -
  let ?E = zipBox and ?w = emptyDisk
  let ?url = "''https://example.com/dl/server-linux-amd64.zip''"
  let ?w1 = "snd (getLatestReleaseAssetURL ?E ?w)"
  let ?data = "''/home/u/.local/share/gh-github-mcp-server''"
  let ?w2 = "snd (getExtensionDataDir ?E ?w1)"
  let ?bin = "''/home/u/.local/share/gh-github-mcp-server/bin''"
  let ?fs3 = "snd (os_MkdirAll (GOOS ?E) ?bin (files ?w2))"
  let ?resp = "\<lparr>StatusCode = 200, Body = (''{}'', None)\<rparr>"
  let ?tmp = "''/tmp/github-mcp-server-42''"
  let ?target = "''/home/u/.local/share/gh-github-mcp-server/bin/github-mcp-server''"
  let ?entry = "\<lparr>zipName = ''bin/github-mcp-server'', zipOpen = Inr (''ELF-helper'', None)\<rparr>"
  have u: "fst (getLatestReleaseAssetURL ?E ?w) = Inr ?url" by code_simp
  then have url: "getLatestReleaseAssetURL ?E ?w = (Inr ?url, ?w1)"
    by (simp add: prod_eq_iff)
  have zip: "HasSuffix ?url ''.zip''" by code_simp
  have "fst (getExtensionDataDir ?E ?w1) = ?data" by code_simp
  then have d1: "getExtensionDataDir ?E ?w1 = (?data, ?w2)"
    by (simp add: prod_eq_iff)
  have d2: "?bin = filepath_Join ?E [?data, ''bin'']" by code_simp
  have "fst (os_MkdirAll (GOOS ?E) ?bin (files ?w2)) = None" by code_simp
  then have d3: "os_MkdirAll (GOOS ?E) ?bin (files ?w2) = (None, ?fs3)"
    by (simp add: prod_eq_iff)
  have g1: "http_Do ?E \<lparr>URL = ?url, Header = []\<rparr> = Inr ?resp"
    by (simp add: zipBox_def answering_def)
  have g2: "StatusCode ?resp = 200" and g3: "Body ?resp = (''{}'', None)" by simp_all
  have t1: "os_CreateTemp ?E ''github-mcp-server-*'' = Inr ?tmp"
    by (simp add: zipBox_def answering_def linuxBox_def)
  have t2: "?tmp \<noteq> ?target" and t3: "?tmp \<noteq> ?bin" by simp_all
  have p1: "?target = filepath_Join ?E [?bin, binaryName ?E]" by code_simp
  have p2: "?target \<noteq> []" by simp
  have p3: "parentOf (GOOS ?E) ?target = ?bin" by code_simp
  have p4: "?fs3 ?target \<noteq> Some Directory" by code_simp
  have e1: "zip_NewReader ?E ''{}'' = Inr helperZip" by (simp add: zipBox_def)
  have e2: "find (\<lambda>file. Contains (zipName file) ''github-mcp-server'' \<and>
                         \<not> HasSuffix (zipName file) ''/'') helperZip = Some ?entry"
    by code_simp
  have e3: "zipOpen ?entry = Inr (''ELF-helper'', None)" by simp
  have n: "map zipName helperZip =
     [''github-mcp-server-dist/'', ''LICENSE'', ''bin/github-mcp-server'',
      ''bin/github-mcp-server.sig'']"
     "zipOpen (helperZip ! 2) = Inr (''ELF-helper'', None)"
     "files emptyDisk ?target = None"
    by code_simp+
  show ?thesis
    using downloadServerBinary_zip_roundtrip
            [OF url zip d1 d2 d3 g1 g2 g3 t1 t2 t3 p1 p2 p3 p4 e1 e2 e3] u e1 n
    by simp
qed

subsection \<open>The Session Launcher\<close>

text \<open>
  C1, as the specification states it, fails: with the helper found at the override path
  and exiting with status 2, the launcher exits with status 1.
\<close>

theorem main_exit_status_counterexample:
  "spawned (snd (main failingHelperBox overrideDisk))
     = [[''/opt/mcp/server'', ''stdio'', ''--read-only'']] \<and>
   cmd_Run failingHelperBox [''/opt/mcp/server'', ''stdio'', ''--read-only'']
     (environ (snd (main failingHelperBox overrideDisk))) = Exited 2 \<and>
   fst (main failingHelperBox overrideDisk) = 1"
  by code_simp

text \<open>
  C1, amended. Invoked with \<^verbatim>\<open>stdio\<close>, with a token and a helper binary, the launcher
  runs the helper with \<^verbatim>\<open>stdio\<close> and the arguments that followed it, and exits with
  status 0 when the helper exits with status 0, with status 1 when the helper exits with
  any other status.
\<close>

theorem main_exit_status:
  assumes "1 < length (Args E)" and "Args E ! 1 = ''stdio''"
    and "getGitHubToken E w = (Inr token, w1)"
    and "ensureServerBinary E
           (w1\<lparr>environ := (environ w1)(''GITHUB_PERSONAL_ACCESS_TOKEN'' := token)\<rparr>)
         = (Inr serverPath, w3)"
    and "cmd_Run E ([serverPath, ''stdio''] @ drop 2 (Args E)) (environ w3) = Exited c"
  shows "fst (main E w) = (if c = 0 then 0 else 1) \<and>
         spawned (snd (main E w)) = spawned w3 @ [[serverPath, ''stdio''] @ drop 2 (Args E)]"
proof -
  have d: "(if 2 < length (Args E) then drop 2 (Args E) else []) = drop 2 (Args E)"
    by simp
  show ?thesis
    using assms unfolding main_def Let_def d
    by (simp add: Fprintf_Stderr_def)
qed

theorem main_exit_status_witness:
  "fst (getGitHubToken linuxBox overrideDisk) = Inr ''gho_abc'' \<and>
   fst (main linuxBox overrideDisk) = 0 \<and>
   fst (main failingHelperBox coLocatedDisk) = 1 \<and>
   spawned (snd (main failingHelperBox coLocatedDisk))
     = [[''/ext/bin/github-mcp-server'', ''stdio'', ''--read-only'']]"
proof -
  let ?env = "\<lambda>w1. w1\<lparr>environ := (environ w1)(''GITHUB_PERSONAL_ACCESS_TOKEN'' := ''gho_abc'')\<rparr>"
  let ?w1 = "snd (getGitHubToken linuxBox overrideDisk)"
  let ?w3 = "snd (ensureServerBinary linuxBox (?env ?w1))"
  let ?v1 = "snd (getGitHubToken failingHelperBox coLocatedDisk)"
  let ?v3 = "snd (ensureServerBinary failingHelperBox (?env ?v1))"
  have a: "1 < length (Args linuxBox)" "Args linuxBox ! 1 = ''stdio''"
          "1 < length (Args failingHelperBox)" "Args failingHelperBox ! 1 = ''stdio''"
    by code_simp+
  have tf: "fst (getGitHubToken linuxBox overrideDisk) = Inr ''gho_abc''" by code_simp
  then have t: "getGitHubToken linuxBox overrideDisk = (Inr ''gho_abc'', ?w1)"
    by (simp add: prod_eq_iff)
  have "fst (ensureServerBinary linuxBox (?env ?w1)) = Inr ''/opt/mcp/server''" by code_simp
  then have e: "ensureServerBinary linuxBox (?env ?w1) = (Inr ''/opt/mcp/server'', ?w3)"
    by (simp add: prod_eq_iff)
  have r: "cmd_Run linuxBox ([''/opt/mcp/server'', ''stdio''] @ drop 2 (Args linuxBox))
             (environ ?w3) = Exited 0"
    by (simp add: linuxBox_def)
  have "fst (getGitHubToken failingHelperBox coLocatedDisk) = Inr ''gho_abc''" by code_simp
  then have t': "getGitHubToken failingHelperBox coLocatedDisk = (Inr ''gho_abc'', ?v1)"
    by (simp add: prod_eq_iff)
  have "fst (ensureServerBinary failingHelperBox (?env ?v1)) = Inr ''/ext/bin/github-mcp-server''"
    by code_simp
  then have e': "ensureServerBinary failingHelperBox (?env ?v1)
                   = (Inr ''/ext/bin/github-mcp-server'', ?v3)"
    by (simp add: prod_eq_iff)
  have r': "cmd_Run failingHelperBox
              ([''/ext/bin/github-mcp-server'', ''stdio''] @ drop 2 (Args failingHelperBox))
              (environ ?v3) = Exited 2"
    by (simp add: failingHelperBox_def)
  have s: "spawned ?v3 = []" "drop 2 (Args failingHelperBox) = [''--read-only'']"
    by code_simp+
  show ?thesis
    using main_exit_status [OF a(1,2) t e r] main_exit_status [OF a(3,4) t' e' r'] tf s
    by simp
qed

lemma foldl_Fprintf_Stderr:
  "foldl (\<lambda>v a. Fprintf_Stderr (f a) v) w xs = w\<lparr>stderr := stderr w @ map f xs\<rparr>"
  by (induction xs arbitrary: w) (simp_all add: Fprintf_Stderr_def)

lemma selectAsset_world:
  "snd (selectAsset E assets w) = w\<lparr>stderr := stderr (snd (selectAsset E assets w))\<rparr>"
  unfolding selectAsset_def Let_def foldl_Fprintf_Stderr
  by (simp add: Fprintf_Stderr_def split: option.splits)

lemma getGitHubToken_world:
  "snd (getGitHubToken E w) = w\<lparr>ghCalls := Suc (ghCalls w)\<rparr>"
  by (simp add: getGitHubToken_def Let_def split: cmd_output.splits)

lemma getLatestReleaseAssetURL_ghCalls:
  "ghCalls (snd (getLatestReleaseAssetURL E w)) = Suc (ghCalls w)"
proof -
  have s: "ghCalls (snd (selectAsset E assets v)) = ghCalls v" for assets v
    by (subst selectAsset_world) simp
  obtain tok w1 where t: "getGitHubToken E w = (tok, w1)"
    by (cases "getGitHubToken E w")
  then have "ghCalls w1 = Suc (ghCalls w)"
    using getGitHubToken_world [of E w] by simp
  then show ?thesis
    unfolding getLatestReleaseAssetURL_def Let_def t
    by (simp add: s Fprintf_Stderr_def split: sum.splits option.splits)
qed

lemma getExtensionDataDir_ghCalls:
  "ghCalls (snd (getExtensionDataDir E w)) = ghCalls w"
  using getExtensionDataDir_world [OF refl, of E w]
  by (metis (no_types, lifting) world.select_convs(3) world.surjective world.update_convs(2))


lemma downloadServerBinary_ghCalls:
  "ghCalls (snd (downloadServerBinary E w)) = Suc (ghCalls w)"
proof -
  obtain r w1 where u: "getLatestReleaseAssetURL E w = (r, w1)"
    by (cases "getLatestReleaseAssetURL E w")
  then have c1: "ghCalls w1 = Suc (ghCalls w)"
    using getLatestReleaseAssetURL_ghCalls [of E w] by simp
  obtain d w2 where g: "getExtensionDataDir E w1 = (d, w2)"
    by (cases "getExtensionDataDir E w1")
  then have c2: "ghCalls w2 = Suc (ghCalls w)"
    using getExtensionDataDir_ghCalls [of E w1] c1 by simp
  show ?thesis
    unfolding downloadServerBinary_def u
    by (simp add: g c1 c2 Let_def Fprintf_Stderr_def
             split: sum.splits prod.splits option.splits)
qed

lemma findServerBinary_ghCalls:
  "ghCalls (snd (findServerBinary E w)) = ghCalls w"
  by (simp add: findServerBinary_snd getExtensionDataDir_ghCalls)

lemma ensureServerBinary_ghCalls:
  "ghCalls (snd (ensureServerBinary E w)) =
     ghCalls w + (if fst (findServerBinary E w) \<noteq> [] then 0 else 1)"
proof -
  obtain p w1 where f: "findServerBinary E w = (p, w1)"
    by (cases "findServerBinary E w")
  then have c: "ghCalls w1 = ghCalls w"
    using findServerBinary_ghCalls [of E w] by simp
  obtain r w2 where d: "downloadServerBinary E (Fprintf_Stderr BinaryNotFoundDownloading w1)
                          = (r, w2)"
    by (cases "downloadServerBinary E (Fprintf_Stderr BinaryNotFoundDownloading w1)")
  then have "ghCalls w2 = Suc (ghCalls w)"
    using downloadServerBinary_ghCalls [of E "Fprintf_Stderr BinaryNotFoundDownloading w1"] c
    by (simp add: Fprintf_Stderr_def)
  then show ?thesis
    unfolding ensureServerBinary_def f
    by (simp add: c d split: sum.splits)
qed

lemma foldl_Println: "foldl (\<lambda>v s. Println s v) w xs = w\<lparr>stdout := stdout w @ xs\<rparr>"
  by (induction xs arbitrary: w) (simp_all add: Println_def)

text \<open>
  C2, as the specification states it, fails: when no helper is installed and the launcher
  downloads one, \<^verbatim>\<open>gh auth token\<close> has run twice by the time the helper is started.
\<close>

theorem main_credential_provider_once_counterexample:
  "ghCalls emptyDisk = 0 \<and> fst (findServerBinary zipBox emptyDisk) = [] \<and>
   fst (main zipBox emptyDisk) = 0 \<and> ghCalls (snd (main zipBox emptyDisk)) = 2"
  by code_simp

text \<open>
  C2, amended. One invocation of the launcher runs \<^verbatim>\<open>gh auth token\<close> once in \<open>main\<close>,
  and once more in the Release Resolver when the Binary Locator finds nothing and the
  download path is taken: not at all without \<^verbatim>\<open>stdio\<close>, once when the token cannot be had
  or when the helper is found, twice otherwise.
\<close>

theorem main_credential_provider_runs:
  "ghCalls (snd (main E w)) =
     ghCalls w +
     (if 1 < length (Args E) \<and> Args E ! 1 = ''stdio'' then
        (case fst (getGitHubToken E w) of
           Inl err \<Rightarrow> 1
         | Inr token \<Rightarrow>
             (if fst (findServerBinary E
                        ((snd (getGitHubToken E w))
                           \<lparr>environ := (environ (snd (getGitHubToken E w)))
                                         (''GITHUB_PERSONAL_ACCESS_TOKEN'' := token)\<rparr>)) \<noteq> []
              then 1 else 2))
      else 0)"
proof (cases "1 < length (Args E) \<and> Args E ! 1 = ''stdio''")
  case False
  have "ghCalls (Println s v) = ghCalls v" for s v
    by (simp add: Println_def)
  with False show ?thesis
    by (auto simp: main_def foldl_Println)
next
  case True
  obtain tok w1 where t: "getGitHubToken E w = (tok, w1)"
    by (cases "getGitHubToken E w")
  then have c1: "ghCalls w1 = Suc (ghCalls w)"
    using getGitHubToken_world [of E w] by simp
  show ?thesis
  proof (cases tok)
    case (Inl err)
    then show ?thesis using True t c1
      by (simp add: main_def Fprintf_Stderr_def)
  next
    case (Inr token)
    let ?w2 = "w1\<lparr>environ := (environ w1)(''GITHUB_PERSONAL_ACCESS_TOKEN'' := token)\<rparr>"
    obtain r w3 where e: "ensureServerBinary E ?w2 = (r, w3)"
      by (cases "ensureServerBinary E ?w2")
    then have c3: "ghCalls w3 =
                     Suc (ghCalls w) + (if fst (findServerBinary E ?w2) \<noteq> [] then 0 else 1)"
      using ensureServerBinary_ghCalls [of E ?w2] c1 by simp
    have "ghCalls (snd (main E w)) = ghCalls w3"
      using True t Inr e
      by (simp add: main_def Let_def Fprintf_Stderr_def split: sum.splits run_result.splits)
    then show ?thesis using True t Inr c3 by simp
  qed
qed

theorem main_credential_provider_runs_witness:
  "ghCalls (snd (main linuxBox overrideDisk)) = 1 \<and>
   ghCalls (snd (main loggedOutBox emptyDisk)) = 1 \<and>
   ghCalls (snd (main linuxBox emptyDisk)) = 2 \<and>
   ghCalls (snd (main (linuxBox\<lparr>Args := [''gh-github-mcp-server'', ''--version'']\<rparr>) emptyDisk)) = 0"
proof -
  have a: "ghCalls (snd (main linuxBox overrideDisk)) = ghCalls overrideDisk + 1"
    by (subst main_credential_provider_runs) code_simp
  have b: "ghCalls (snd (main loggedOutBox emptyDisk)) = ghCalls emptyDisk + 1"
    by (subst main_credential_provider_runs) code_simp
  have c: "ghCalls (snd (main linuxBox emptyDisk)) = ghCalls emptyDisk + 2"
    by (subst main_credential_provider_runs) code_simp
  have d: "ghCalls (snd (main (linuxBox\<lparr>Args := [''gh-github-mcp-server'', ''--version'']\<rparr>)
                           emptyDisk)) = ghCalls emptyDisk + 0"
    by (subst main_credential_provider_runs) code_simp
  have "ghCalls overrideDisk = 0" "ghCalls emptyDisk = 0" by code_simp+
  then show ?thesis using a b c d by simp
qed


lemma selectAsset_requests:
  "requests (snd (selectAsset E assets v)) = requests v"
  by (subst selectAsset_world) simp

lemma selectAsset_fst:
  "fst (selectAsset E assets w) = fst (selectAsset E assets v)"
  unfolding selectAsset_def Let_def
  by (simp split: option.splits)

text \<open>
  C8. When \<^verbatim>\<open>gh auth token\<close> fails inside the Release Resolver, the request for the
  release listing is issued all the same, with the user agent and no authorization header,
  and the result of the resolver is what the answer to that request makes it. When it fails
  in \<open>main\<close>, the launcher prints the error and exits with status 1, and has started no
  process, sent no request and touched no file.
\<close>

theorem token_failure_fatal_only_in_main:
  assumes resolver: "fst (getGitHubToken E v) = Inl e"
    and launcher: "1 < length (Args E)" "Args E ! 1 = ''stdio''"
                  "fst (getGitHubToken E w) = Inl e'"
  shows "requests (snd (getLatestReleaseAssetURL E v)) =
           requests v @
           [\<lparr>URL = releaseAPIURL,
             Header = [(''User-Agent'', ''gh-github-mcp-server/'' @ version)]\<rparr>] \<and>
         fst (getLatestReleaseAssetURL E v) =
           (case http_Do E \<lparr>URL = releaseAPIURL,
                             Header = [(''User-Agent'', ''gh-github-mcp-server/'' @ version)]\<rparr> of
              Inl err \<Rightarrow> Inl (FailedToGetLatestReleaseInfo err)
            | Inr resp \<Rightarrow>
                if StatusCode resp \<noteq> 200
                then Inl (FailedToGetLatestReleaseInfoHTTP (StatusCode resp) (fst (Body resp)))
                else (case json_Decode E (Body resp) of
                        None \<Rightarrow> Inl FailedToParseReleaseInfo
                      | Some release \<Rightarrow> fst (selectAsset E (Assets release) v))) \<and>
         main E w =
           (1, w\<lparr>ghCalls := Suc (ghCalls w),
                  stderr := stderr w @ [ErrorGettingGitHubToken e']\<rparr>) \<and>
         spawned (snd (main E w)) = spawned w \<and>
         requests (snd (main E w)) = requests w \<and>
         files (snd (main E w)) = files w"
proof -
  let ?req = "\<lparr>URL = releaseAPIURL,
               Header = [(''User-Agent'', ''gh-github-mcp-server/'' @ version)]\<rparr>"
  obtain v1 where t: "getGitHubToken E v = (Inl e, v1)"
    using resolver by (cases "getGitHubToken E v") simp
  then have v1: "v1 = v\<lparr>ghCalls := Suc (ghCalls v)\<rparr>"
    using getGitHubToken_world [of E v] by simp
  have A: "requests (snd (getLatestReleaseAssetURL E v)) = requests v @ [?req]"
    unfolding getLatestReleaseAssetURL_def Let_def t
    by (simp add: v1 selectAsset_requests Fprintf_Stderr_def split: sum.splits option.splits)
  have B: "fst (getLatestReleaseAssetURL E v) =
           (case http_Do E ?req of
              Inl err \<Rightarrow> Inl (FailedToGetLatestReleaseInfo err)
            | Inr resp \<Rightarrow>
                if StatusCode resp \<noteq> 200
                then Inl (FailedToGetLatestReleaseInfoHTTP (StatusCode resp) (fst (Body resp)))
                else (case json_Decode E (Body resp) of
                        None \<Rightarrow> Inl FailedToParseReleaseInfo
                      | Some release \<Rightarrow> fst (selectAsset E (Assets release) v)))"
  proof (cases "http_Do E ?req")
    case (Inl err)
    then show ?thesis
      unfolding getLatestReleaseAssetURL_def Let_def t by simp
  next
    case (Inr resp)
    show ?thesis
    proof (cases "json_Decode E (Body resp)")
      case None
      with Inr show ?thesis
        unfolding getLatestReleaseAssetURL_def Let_def t by simp
    next
      case (Some release)
      show ?thesis
      proof (cases "StatusCode resp = 200")
        case False
        with Inr show ?thesis
          unfolding getLatestReleaseAssetURL_def Let_def t by simp
      next
        case True
        have "\<exists>u. fst (getLatestReleaseAssetURL E v) = fst (selectAsset E (Assets release) u)"
          using Inr Some True
          unfolding getLatestReleaseAssetURL_def Let_def t
          by auto
        then have "fst (getLatestReleaseAssetURL E v) = fst (selectAsset E (Assets release) v)"
          using selectAsset_fst [of E "Assets release" _ v] by auto
        with Inr Some True show ?thesis by simp
      qed
    qed
  qed
  obtain w1 where t': "getGitHubToken E w = (Inl e', w1)"
    using launcher(3) by (cases "getGitHubToken E w") simp
  then have w1: "w1 = w\<lparr>ghCalls := Suc (ghCalls w)\<rparr>"
    using getGitHubToken_world [of E w] by simp
  have C: "main E w =
           (1, w\<lparr>ghCalls := Suc (ghCalls w),
                  stderr := stderr w @ [ErrorGettingGitHubToken e']\<rparr>)"
    using launcher(1,2) by (simp add: main_def t' w1 Fprintf_Stderr_def)
  show ?thesis using A B C by simp
qed

theorem token_failure_fatal_only_in_main_witness:
  "fst (getGitHubToken loggedOutBox emptyDisk)
     = Inl (FailedToGetGitHubToken ''You are not logged into any GitHub hosts.'') \<and>
   requests (snd (getLatestReleaseAssetURL loggedOutBox emptyDisk))
     = [\<lparr>URL = releaseAPIURL, Header = [(''User-Agent'', ''gh-github-mcp-server/dev'')]\<rparr>] \<and>
   fst (getLatestReleaseAssetURL loggedOutBox emptyDisk)
     = Inr ''https://example.com/dl/server-linux-amd64.zip'' \<and>
   fst (main loggedOutBox emptyDisk) = 1 \<and>
   spawned (snd (main loggedOutBox emptyDisk)) = [] \<and>
   requests (snd (main loggedOutBox emptyDisk)) = []"
proof -
  have a: "fst (getGitHubToken loggedOutBox emptyDisk)
             = Inl (FailedToGetGitHubToken ''You are not logged into any GitHub hosts.'')"
    by code_simp
  have b: "1 < length (Args loggedOutBox)" "Args loggedOutBox ! 1 = ''stdio''"
    by code_simp+
  have c: "requests emptyDisk = []" "spawned emptyDisk = []" "version = ''dev''"
    by code_simp+
  have d: "fst (getLatestReleaseAssetURL loggedOutBox emptyDisk)
             = Inr ''https://example.com/dl/server-linux-amd64.zip''"
    by code_simp
  show ?thesis
    using token_failure_fatal_only_in_main [OF a b a] a c d by simp
qed

end
